theory Spec2Isabelle
  imports Complex_Main
begin

section \<open>Numbers, rounding and dates of the JavaScript source\<close>

text \<open>
  The source \<^verbatim>\<open>src/api.js\<close> holds four variants of one serverless endpoint, one
  after the other: (1) the rule-based handler that takes the profile from the request,
  (2) the rule-based handler configured by environment variables, (3) and (4) the two
  AI-planner handlers with a rule-based fallback. Definitions below keep the source's
  names; where the variants reuse a name, the variant number is appended.

  Modelling conventions.
  \<^item> A JavaScript number is \<open>NaN\<close> or an exact real (\<open>jsnum\<close>); where the source cannot
    produce \<open>NaN\<close> the model uses a plain real. The rounding error of IEEE doubles is
    outside the model: where the exact product \<open>goal * fraction\<close> is a tie \<open>k + 1/2\<close>,
    the double product of the source can fall below the tie and round to \<open>k\<close>, one
    less than here. An infinity can only enter through the answer of the
    text-generation provider, and is brought to a bound where it is read.
  \<^item> The fields of the request and of the environment are typed as the data model of
    the specification types them (a number or a string, or absent); the answer of the
    text-generation provider is untrusted and may hold any JSON value.
  \<^item> A \<^verbatim>\<open>Date\<close> is its integer number of milliseconds since the epoch. Local time is
    UTC plus a fixed offset \<open>tz\<close> in milliseconds (no daylight-saving change inside a
    day).
  \<^item> \<^verbatim>\<open>Math.round\<close> rounds to the nearest integer, ties towards plus infinity.
  \<^item> The \<^verbatim>\<open>Date\<close> constructor truncates a fractional time value towards zero.
  \<^item> Strings are byte strings; only the ASCII letters are lower-cased.
  \<^item> The text of the outgoing message is not modelled, only that it is sent and to whom.
\<close>

definition clamp :: "'a::linorder \<Rightarrow> 'a \<Rightarrow> 'a \<Rightarrow> 'a" where
  "clamp v lo hi = max lo (min v hi)"

text \<open>
  Numbers that can be \<open>NaN\<close>. Arithmetic, \<^verbatim>\<open>Math.max\<close>, \<^verbatim>\<open>Math.min\<close> and
  \<^verbatim>\<open>Math.round\<close> give \<open>NaN\<close> as soon as an operand is \<open>NaN\<close>; every comparison with
  \<open>NaN\<close> is false.
\<close>

datatype jsnum = NaN | Num real

fun js_add :: "jsnum \<Rightarrow> jsnum \<Rightarrow> jsnum" where
  "js_add (Num x) (Num y) = Num (x + y)"
| "js_add _ _ = NaN"

fun js_sub :: "jsnum \<Rightarrow> jsnum \<Rightarrow> jsnum" where
  "js_sub (Num x) (Num y) = Num (x - y)"
| "js_sub _ _ = NaN"

fun js_mul :: "jsnum \<Rightarrow> jsnum \<Rightarrow> jsnum" where
  "js_mul (Num x) (Num y) = Num (x * y)"
| "js_mul _ _ = NaN"

text \<open>Division, used by the source with the divisor 3 only.\<close>

fun js_div :: "jsnum \<Rightarrow> jsnum \<Rightarrow> jsnum" where
  "js_div (Num x) (Num y) = Num (x / y)"
| "js_div _ _ = NaN"

fun js_max :: "jsnum \<Rightarrow> jsnum \<Rightarrow> jsnum" where
  "js_max (Num x) (Num y) = Num (max x y)"
| "js_max _ _ = NaN"

fun js_min :: "jsnum \<Rightarrow> jsnum \<Rightarrow> jsnum" where
  "js_min (Num x) (Num y) = Num (min x y)"
| "js_min _ _ = NaN"

fun js_less :: "jsnum \<Rightarrow> jsnum \<Rightarrow> bool" where
  "js_less (Num x) (Num y) = (x < y)"
| "js_less _ _ = False"

fun js_le :: "jsnum \<Rightarrow> jsnum \<Rightarrow> bool" where
  "js_le (Num x) (Num y) = (x \<le> y)"
| "js_le _ _ = False"

text \<open>\<^verbatim>\<open>clamp = (v, lo, hi) => Math.max(lo, Math.min(v, hi))\<close> on such numbers.\<close>

definition js_clamp :: "jsnum \<Rightarrow> jsnum \<Rightarrow> jsnum \<Rightarrow> jsnum" where
  "js_clamp v lo hi = js_max lo (js_min v hi)"

definition Math_round :: "real \<Rightarrow> real" where
  "Math_round x = of_int \<lfloor>x + 1 / 2\<rfloor>"

fun js_round :: "jsnum \<Rightarrow> jsnum" where
  "js_round (Num x) = Num (Math_round x)"
| "js_round NaN = NaN"

definition timeClip :: "real \<Rightarrow> int" where
  "timeClip x = (if 0 \<le> x then \<lfloor>x\<rfloor> else \<lceil>x\<rceil>)"

definition getHours :: "int \<Rightarrow> int \<Rightarrow> int" where
  "getHours tz d = ((d + tz) div 3600000) mod 24"

definition getDay :: "int \<Rightarrow> int \<Rightarrow> int" where
  "getDay tz d = ((d + tz) div 86400000 + 4) mod 7"

definition setHours :: "int \<Rightarrow> int \<Rightarrow> int \<Rightarrow> int \<Rightarrow> int" where
  "setHours tz d h m = (d + tz) - (d + tz) mod 86400000 + h * 3600000 + m * 60000 - tz"

text \<open>\<^verbatim>\<open>x || d\<close> on a string: the empty string and an absent value are falsy.\<close>

definition str_or :: "string option \<Rightarrow> string \<Rightarrow> string" where
  "str_or x d = (case x of None \<Rightarrow> d | Some s \<Rightarrow> if s = [] then d else s)"

definition truthy_str :: "string option \<Rightarrow> bool" where
  "truthy_str x = (case x of None \<Rightarrow> False | Some s \<Rightarrow> s \<noteq> [])"

text \<open>The recipient, once \<open>truthy_str\<close> has been checked.\<close>

definition chat_of :: "string option \<Rightarrow> string" where
  "chat_of x = (case x of None \<Rightarrow> [] | Some s \<Rightarrow> s)"

text \<open>\<^verbatim>\<open>Number(x) || d\<close> on a number that may be absent: zero and NaN are falsy.\<close>

definition Number_or :: "real option \<Rightarrow> real \<Rightarrow> real" where
  "Number_or x d = (case x of None \<Rightarrow> d | Some v \<Rightarrow> if v = 0 then d else v)"

text \<open>
  \<^verbatim>\<open>Number(process.env.X || d)\<close>: the environment variable is a string, and the string
  \<^verbatim>\<open>"0"\<close> is truthy, so a configured zero stays zero.
\<close>

definition Number_env :: "real option \<Rightarrow> real \<Rightarrow> real" where
  "Number_env x d = (case x of None \<Rightarrow> d | Some v \<Rightarrow> v)"

subsection \<open>Parsing \<^verbatim>\<open>HH:MM\<close>\<close>

definition isDigit :: "char \<Rightarrow> bool" where
  "isDigit c = (48 \<le> (of_char c :: nat) \<and> (of_char c :: nat) \<le> 57)"

definition digitVal :: "char \<Rightarrow> int" where
  "digitVal c = int (of_char c) - 48"

text \<open>Variant 1: \<^verbatim>\<open>/^\d{2}:\d{2}$/\<close>, then \<^verbatim>\<open>s.split(':').map(Number)\<close>.\<close>

fun matchHM_1 :: "string \<Rightarrow> (int \<times> int) option" where
  "matchHM_1 [a1, a2, c, b1, b2] =
     (if isDigit a1 \<and> isDigit a2 \<and> c = CHR '':'' \<and> isDigit b1 \<and> isDigit b2
      then Some (10 * digitVal a1 + digitVal a2, 10 * digitVal b1 + digitVal b2)
      else None)"
| "matchHM_1 _ = None"

definition parseHM_1 :: "int \<Rightarrow> int \<Rightarrow> string option \<Rightarrow> int option" where
  "parseHM_1 tz now s =
     (case matchHM_1 (case s of None \<Rightarrow> [] | Some t \<Rightarrow> t) of
        None \<Rightarrow> None
      | Some (a, b) \<Rightarrow> Some (setHours tz now a b))"

text \<open>Variants 2 to 4: \<^verbatim>\<open>/^(\d{1,2}):(\d{2})$/\<close>, hours and minutes clamped.\<close>

fun matchHM :: "string \<Rightarrow> (int \<times> int) option" where
  "matchHM [a2, c, b1, b2] =
     (if isDigit a2 \<and> c = CHR '':'' \<and> isDigit b1 \<and> isDigit b2
      then Some (digitVal a2, 10 * digitVal b1 + digitVal b2)
      else None)"
| "matchHM [a1, a2, c, b1, b2] =
     (if isDigit a1 \<and> isDigit a2 \<and> c = CHR '':'' \<and> isDigit b1 \<and> isDigit b2
      then Some (10 * digitVal a1 + digitVal a2, 10 * digitVal b1 + digitVal b2)
      else None)"
| "matchHM _ = None"

text \<open>
  \<^verbatim>\<open>parseHM(s, defH=7, defM=0)\<close> reads the clock itself (\<^verbatim>\<open>new Date()\<close>): \<open>clock\<close>
  is that reading.
\<close>

definition parseHM :: "int \<Rightarrow> int \<Rightarrow> string \<Rightarrow> int \<Rightarrow> int \<Rightarrow> int" where
  "parseHM tz clock s defH defM =
     (case matchHM s of
        None \<Rightarrow> setHours tz clock defH defM
      | Some (h, mm) \<Rightarrow> setHours tz clock (clamp h 0 23) (clamp mm 0 59))"

section \<open>Profile normalizer (variant 1)\<close>

record profile =
  p_weight_kg :: "real option"
  p_activity_level :: "string option"
  p_daily_activity_minutes :: "real option"
  p_medical_conditions :: "string list option"
  p_clinician_limit_ml :: "real option"
  p_temp_c :: "real option"
  p_humidity_pct :: "real option"
  p_wake_time :: "string option"
  p_sleep_time :: "string option"

record ctx =
  weight_kg :: real
  activity_level :: string
  daily_activity_minutes :: real
  medical_conditions :: "string list"
  clinician_limit_ml :: "real option"
  temp_c :: "real option"
  humidity_pct :: "real option"
  wake :: int
  sleep :: int

definition no_profile :: profile where
  "no_profile = \<lparr>p_weight_kg = None, p_activity_level = None,
     p_daily_activity_minutes = None, p_medical_conditions = None,
     p_clinician_limit_ml = None, p_temp_c = None, p_humidity_pct = None,
     p_wake_time = None, p_sleep_time = None\<rparr>"

text \<open>
  The \<open>profile\<close> of a request body: absent (\<^verbatim>\<open>undefined\<close>), \<^verbatim>\<open>null\<close>, or an object.
\<close>

datatype profile_arg = NoProfile | NullProfile | Profile profile

text \<open>
  The body of \<^verbatim>\<open>computeContext\<close> for an object \<open>p\<close>. The default of \<open>wake\<close> is
  \<^verbatim>\<open>new Date(now.setHours(7,0,0,0))\<close>, which changes the caller's \<open>now\<close>; the
  function therefore returns the context together with \<open>now\<close> as the caller sees it
  afterwards. The default of \<open>sleep\<close> is taken from a fresh clock reading \<open>clock\<close>.
\<close>

definition contextOf :: "int \<Rightarrow> int \<Rightarrow> profile \<Rightarrow> int \<Rightarrow> ctx \<times> int" where
  "contextOf tz clock p now =
     (let (wake_d, now1) = (case parseHM_1 tz now (p_wake_time p) of
                              Some d \<Rightarrow> (d, now)
                            | None \<Rightarrow> (setHours tz now 7 0, setHours tz now 7 0));
          sleep_d = (case parseHM_1 tz now1 (p_sleep_time p) of
                       Some d \<Rightarrow> d
                     | None \<Rightarrow> setHours tz clock 23 0)
      in (\<lparr>weight_kg = Number_or (p_weight_kg p) 60,
           activity_level = str_or (p_activity_level p) ''Light'',
           daily_activity_minutes = Number_or (p_daily_activity_minutes p) 30,
           medical_conditions = (case p_medical_conditions p of None \<Rightarrow> [] | Some l \<Rightarrow> l),
           clinician_limit_ml = p_clinician_limit_ml p,
           temp_c = p_temp_c p,
           humidity_pct = p_humidity_pct p,
           wake = wake_d, sleep = sleep_d\<rparr>, now1))"

text \<open>
  \<^verbatim>\<open>computeContext(p={}, now)\<close>: the default \<^verbatim>\<open>p={}\<close> replaces \<^verbatim>\<open>undefined\<close> only, so on
  \<^verbatim>\<open>null\<close> the first field access \<^verbatim>\<open>p.wake_time\<close> throws a TypeError (\<open>None\<close>), before
  anything is changed.
\<close>

definition computeContext :: "int \<Rightarrow> int \<Rightarrow> profile_arg \<Rightarrow> int \<Rightarrow> (ctx \<times> int) option" where
  "computeContext tz clock p0 now =
     (case p0 of
        NullProfile \<Rightarrow> None
      | NoProfile \<Rightarrow> Some (contextOf tz clock no_profile now)
      | Profile p \<Rightarrow> Some (contextOf tz clock p now))"

section \<open>Goal calculator\<close>

text \<open>
  The property names every object literal inherits from \<^verbatim>\<open>Object.prototype\<close>. A lookup
  \<^verbatim>\<open>{...}[a]\<close> with such a name finds the inherited member (a function, or the
  prototype object for \<^verbatim>\<open>__proto__\<close>), which is not nullish, so \<^verbatim>\<open>??\<close> keeps it; as
  an operand of \<^verbatim>\<open>*\<close> it converts to \<open>NaN\<close>.
\<close>

definition inherited_members :: "string list" where
  "inherited_members = [''constructor'', ''__defineGetter__'', ''__defineSetter__'',
     ''hasOwnProperty'', ''__lookupGetter__'', ''__lookupSetter__'', ''isPrototypeOf'',
     ''propertyIsEnumerable'', ''toString'', ''valueOf'', ''__proto__'', ''toLocaleString'']"

text \<open>
  The table lookup \<^verbatim>\<open>{Sedentary:0, Light:200, Moderate:400, Heavy:600}[a] ?? 200\<close>, as the
  multiplication \<^verbatim>\<open>blocks * addPer\<close> reads it.
\<close>

definition addPer :: "string \<Rightarrow> jsnum" where
  "addPer a = (if a = ''Sedentary'' then Num 0 else if a = ''Light'' then Num 200
     else if a = ''Moderate'' then Num 400 else if a = ''Heavy'' then Num 600
     else if a \<in> set inherited_members then NaN else Num 200)"

definition hot_or_humid :: "ctx \<Rightarrow> bool" where
  "hot_or_humid c = ((case temp_c c of None \<Rightarrow> False | Some t \<Rightarrow> 30 \<le> t)
     \<or> (case humidity_pct c of None \<Rightarrow> False | Some h \<Rightarrow> 70 \<le> h))"

definition computeGoalMl :: "ctx \<Rightarrow> jsnum" where
  "computeGoalMl c =
     (let goal0 = Num (Math_round (35 * weight_kg c));
          blocks = max 0 (Math_round (daily_activity_minutes c / 30));
          goal1 = js_add goal0 (js_mul (Num blocks) (addPer (activity_level c)));
          goal2 = (if hot_or_humid c then js_add goal1 (Num 300) else goal1);
          hasCKD = (''ckd'' \<in> set (medical_conditions c));
          hasHF = (''hf'' \<in> set (medical_conditions c));
          goal3 = (case clinician_limit_ml c of
                     None \<Rightarrow> goal2
                   | Some l \<Rightarrow> js_min goal2 (Num l));
          goal4 = (if (hasCKD \<or> hasHF) \<and> clinician_limit_ml c = None
                   then js_min goal3 (Num 2000) else goal3)
      in js_clamp goal4 (Num 1200) (Num 4000))"

text \<open>Variant 2: \<^verbatim>\<open>computeGoalMl(weight_kg, activity_level, daily_minutes)\<close>.\<close>

definition computeGoalMl_2 :: "real \<Rightarrow> string \<Rightarrow> real \<Rightarrow> jsnum" where
  "computeGoalMl_2 w a daily_minutes =
     (let goal0 = Num (Math_round (35 * w));
          blocks = max 0 (Math_round (daily_minutes / 30));
          goal1 = js_add goal0 (js_mul (Num blocks) (addPer a))
      in js_clamp goal1 (Num 1200) (Num 4000))"

section \<open>Pacing scheduler\<close>

text \<open>
  The closure \<^verbatim>\<open>fractionAt(now)\<close> of \<^verbatim>\<open>computeSchedule\<close> and \<^verbatim>\<open>makeSchedule\<close>, with the
  variables it captures (\<open>morning\<close>, \<open>afternoon\<close>, \<open>evening\<close>, \<open>wake\<close>, \<open>sleep\<close>) as
  parameters. \<^verbatim>\<open>tMorningEnd\<close> and \<^verbatim>\<open>tAfternoonEnd\<close> are \<^verbatim>\<open>Date\<close>s, hence truncated to
  whole milliseconds.
\<close>

definition tMorningEnd :: "int \<Rightarrow> int \<Rightarrow> int" where
  "tMorningEnd wk sl = timeClip (real_of_int wk + real_of_int (max 1 (sl - wk)) * (33 / 100))"

definition tAfternoonEnd :: "int \<Rightarrow> int \<Rightarrow> int" where
  "tAfternoonEnd wk sl = timeClip (real_of_int wk + real_of_int (max 1 (sl - wk)) * (80 / 100))"

definition fractionAt :: "real \<Rightarrow> real \<Rightarrow> real \<Rightarrow> int \<Rightarrow> int \<Rightarrow> int \<Rightarrow> real" where
  "fractionAt morning afternoon evening wk sl now =
     (if now \<le> wk then 0
      else if now \<ge> sl then 1
      else if now \<le> tMorningEnd wk sl then
        (let f = real_of_int (now - wk) / real_of_int (tMorningEnd wk sl - wk)
         in f * morning)
      else if now \<le> tAfternoonEnd wk sl then
        (let f = real_of_int (now - tMorningEnd wk sl)
                 / real_of_int (tAfternoonEnd wk sl - tMorningEnd wk sl)
         in morning + f * afternoon)
      else
        (let f = real_of_int (now - tAfternoonEnd wk sl)
                 / real_of_int (sl - tAfternoonEnd wk sl)
         in morning + afternoon + f * evening))"

definition morningOf :: "string \<Rightarrow> real" where
  "morningOf a = (if a = ''Heavy'' then 25 / 100 else if a = ''Moderate'' then 30 / 100
     else 35 / 100)"

definition afternoonOf :: "string \<Rightarrow> real" where
  "afternoonOf a = (if a = ''Heavy'' then 55 / 100 else if a = ''Moderate'' then 50 / 100
     else 45 / 100)"

definition eveningOf :: "string \<Rightarrow> real" where
  "eveningOf a = 1 - (morningOf a + afternoonOf a)"

text \<open>\<^verbatim>\<open>computeSchedule(ctx).fractionAt\<close> (variant 1).\<close>

definition computeSchedule :: "ctx \<Rightarrow> int \<Rightarrow> real" where
  "computeSchedule c =
     fractionAt (morningOf (activity_level c)) (afternoonOf (activity_level c))
       (eveningOf (activity_level c)) (wake c) (sleep c)"

text \<open>
  \<^verbatim>\<open>makeSchedule(activity_level, wakeStr, sleepStr).fractionAt\<close> (variant 2); \<open>cw\<close> and
  \<open>cs\<close> are the clock readings of the two calls of \<^verbatim>\<open>parseHM\<close>.
\<close>

definition makeSchedule :: "int \<Rightarrow> int \<Rightarrow> int \<Rightarrow> string \<Rightarrow> string \<Rightarrow> string \<Rightarrow> int \<Rightarrow> real" where
  "makeSchedule tz cw cs a wakeStr sleepStr =
     fractionAt (morningOf a) (afternoonOf a) (eveningOf a)
       (parseHM tz cw wakeStr 7 0) (parseHM tz cs sleepStr 23 0)"

section \<open>Requests, responses, the notification state\<close>

text \<open>
  The body of a request, with each field typed as the data model types it; \<open>None\<close> is a
  field that is absent (or \<^verbatim>\<open>null\<close>, for \<open>ml\<close> and \<open>pct\<close>, which the source tests with
  \<^verbatim>\<open>== null\<close>). The profile is absent, \<^verbatim>\<open>null\<close> or an object. The fields \<open>cm\<close> and \<open>ts\<close>
  and the profile's \<open>name\<close> and \<open>age\<close> reach no computation and are left out.
\<close>

record reading =
  b_ml :: "real option"
  b_pct :: "real option"
  b_profile :: profile_arg

text \<open>The body is \<open>None\<close> when \<^verbatim>\<open>JSON.parse\<close> throws.\<close>

record request =
  http_method :: string
  body :: "reading option"

datatype skip_reason = quiet_hours | interval | on_track_or_done

text \<open>
  \<open>Notified goal target sip\<close> is \<^verbatim>\<open>200 {ok:true, notified:true, ...}\<close> with the three
  numbers of the answer (of the plan, in variants 3 and 4); a skipped response carries
  its reason only.
\<close>

datatype response =
    Status405
  | Status400
  | Status500_config
  | Status500_server_error
  | Skipped skip_reason
  | Notified jsnum jsnum jsnum

datatype effect = Send string | SetLastNotified string int

type_synonym notification_state = "string \<rightharpoonup> int"

text \<open>\<^verbatim>\<open>lastNotified.get(chatId) || 0\<close>.\<close>

definition last_of :: "notification_state \<Rightarrow> string \<Rightarrow> int" where
  "last_of st chat = (case st chat of None \<Rightarrow> 0 | Some t \<Rightarrow> t)"

record envvars =
  env_BOT_TOKEN :: "string option"
  env_CHAT_ID :: "string option"
  env_WEIGHT_KG :: "real option"
  env_ACTIVITY_LEVEL :: "string option"
  env_DAILY_ACTIVITY_MINUTES :: "real option"
  env_WAKE_TIME :: "string option"
  env_SLEEP_TIME :: "string option"
  env_QUIET_START_HOUR :: "real option"
  env_QUIET_END_HOUR :: "real option"
  env_MIN_INTERVAL_MIN :: "real option"
  env_ACTIVITY_MON :: "string option"
  env_ACTIVITY_TUE :: "string option"
  env_ACTIVITY_WED :: "string option"
  env_ACTIVITY_THU :: "string option"
  env_ACTIVITY_FRI :: "string option"
  env_ACTIVITY_SAT :: "string option"
  env_ACTIVITY_SUN :: "string option"
  env_CLINICIAN_LIMIT_ML :: "real option"
  env_OPENAI_API_KEY :: "string option"

text \<open>
  What the text-generation provider answers (variants 3 and 4). The answer is untrusted:
  a field may hold any JSON value. The source reads the three numeric fields through
  \<^verbatim>\<open>Number(x || 0)\<close>, and a field is modelled by what that expression does with it:
  \<^item> \<open>Missing\<close>: the field is absent or falsy (\<^verbatim>\<open>null\<close>, \<^verbatim>\<open>false\<close>, \<^verbatim>\<open>0\<close>, \<^verbatim>\<open>""\<close>), read as 0;
  \<^item> \<open>Numeric x\<close>: a number \<open>x\<close>, or a value that converts to \<open>x\<close> (\<^verbatim>\<open>true\<close>, \<^verbatim>\<open>"2500"\<close>);
  \<^item> \<open>Infinite up\<close>: a value that converts to plus infinity (\<open>up\<close>) or minus infinity
    (\<^verbatim>\<open>1e999\<close>, \<^verbatim>\<open>"-Infinity"\<close>);
  \<^item> \<open>NonNumeric\<close>: a value that converts to \<open>NaN\<close> (\<^verbatim>\<open>"2500 ml"\<close>, \<^verbatim>\<open>{}\<close>);
  \<^item> \<open>Unconvertible\<close>: an object whose conversion throws a TypeError (one with an own
    \<^verbatim>\<open>toString\<close> field, such as \<^verbatim>\<open>{"toString": 1}\<close>).
  The reason is read through \<^verbatim>\<open>String(x || '')\<close>: \<open>NoText\<close> for an absent or falsy field,
  \<open>Text s\<close> for a value whose string is \<open>s\<close>, \<open>TextUnconvertible\<close> when the conversion
  throws. The flag is read through \<^verbatim>\<open>!!x\<close>, which every JSON value answers.
\<close>

datatype json = JNull | JBool bool | JNum real | JStr string | JObject

datatype num_field = Missing | Numeric real | Infinite bool | NonNumeric | Unconvertible

datatype text_field = NoText | Text string | TextUnconvertible

record ai_data =
  daily_goal_ml :: num_field
  target_ml_by_now :: num_field
  d_next_sip_ml :: num_field
  d_should_notify :: "json option"
  short_reason :: text_field

text \<open>
  \<open>FetchError\<close>: \<^verbatim>\<open>fetch\<close> or \<^verbatim>\<open>r.json()\<close> rejects; \<open>NoContent\<close>:
  \<^verbatim>\<open>r?.choices?.[0]?.message?.content\<close> is absent or empty; \<open>BadJson\<close>: \<^verbatim>\<open>JSON.parse\<close>
  throws, or yields \<^verbatim>\<open>null\<close> so that reading a field throws; \<open>Reply d\<close>: the content
  parses to a value with the fields \<open>d\<close> (a number, string, boolean or array has none
  of them).
\<close>

datatype ai_reply = FetchError | NoContent | BadJson | Reply ai_data

text \<open>
  Everything an invocation reads from outside: the environment variables, the time zone,
  the clock readings in the order of the source, whether the call to the messaging
  provider resolves, and the text-generation provider's answer.
\<close>

record world =
  w_vars :: envvars
  w_tz :: int
  w_now :: int
  clock_wake :: int
  clock_sleep :: int
  clock_dow :: int
  clock_rate :: int
  clock_set :: int
  send_ok :: bool
  w_ai :: ai_reply

type_synonym outcome = "response \<times> effect list \<times> notification_state"

text \<open>
  The tail shared by all four handlers:
  \<^verbatim>\<open>await send(...); lastNotified.set(chat, Date.now()); res.json({... notified:true ...})\<close>,
  inside the \<^verbatim>\<open>try\<close> whose \<^verbatim>\<open>catch\<close> answers 500.
\<close>

definition send_and_record :: "world \<Rightarrow> notification_state \<Rightarrow> string \<Rightarrow> response \<Rightarrow> outcome" where
  "send_and_record w st chat r =
     (if send_ok w
      then (r, [Send chat, SetLastNotified chat (clock_set w)], st(chat \<mapsto> clock_set w))
      else (Status500_server_error, [Send chat], st))"

definition sipMin :: "string \<Rightarrow> real" where
  "sipMin a = (if a = ''Heavy'' then 200 else if a = ''Moderate'' then 180 else 150)"

definition sipMax :: "string \<Rightarrow> real" where
  "sipMax a = (if a = ''Heavy'' then 300 else if a = ''Moderate'' then 250 else 220)"

section \<open>Variant 1: rule-based handler, profile in the request\<close>

definition handler_1 :: "world \<Rightarrow> notification_state \<Rightarrow> request \<Rightarrow> outcome" where
  "handler_1 w st req =
     (if http_method req \<noteq> ''POST'' then (Status405, [], st)
      else case body req of
        None \<Rightarrow> (Status500_server_error, [], st)
      | Some b \<Rightarrow>
       (case (b_pct b, b_ml b) of
          (Some pct, Some ml) \<Rightarrow>
            if \<not> truthy_str (env_CHAT_ID (w_vars w)) \<or> \<not> truthy_str (env_BOT_TOKEN (w_vars w))
            then (Status500_config, [], st)
            else
              let chatId = chat_of (env_CHAT_ID (w_vars w));
                  hour = getHours (w_tz w) (w_now w)
              in if hour \<ge> 23 \<or> hour < 7 then (Skipped quiet_hours, [], st)
              else
              (case computeContext (w_tz w) (clock_sleep w) (b_profile b) (w_now w) of
                None \<Rightarrow> (Status500_server_error, [], st)
              | Some (c, now1) \<Rightarrow>
                let goal_ml = computeGoalMl c;
                    target_ml_now = js_round (js_mul goal_ml (Num (computeSchedule c now1)));
                    remaining_ml = js_max (Num 0) (js_sub goal_ml (Num ml));
                    last = last_of st chatId
                in if real_of_int (clock_rate w - last) < 30 * 60 * 1000
                   then (Skipped interval, [], st)
                else
                  let behind = js_less (Num (ml + 50)) target_ml_now;
                      veryLow = (pct < 40)
                  in if \<not> (behind \<or> veryLow) \<or> js_le remaining_ml (Num 0)
                     then (Skipped on_track_or_done, [], st)
                  else
                    let gap = js_max (Num 0) (js_sub target_ml_now (Num ml));
                        act = activity_level c;
                        next_sip_ml = js_clamp (js_round (js_div gap (Num 3)))
                                        (Num (sipMin act)) (Num (sipMax act))
                    in send_and_record w st chatId (Notified goal_ml target_ml_now next_sip_ml))
        | _ \<Rightarrow> (Status400, [], st)))"

section \<open>Variant 2: rule-based handler, profile in the environment\<close>

text \<open>
  The configuration read by \<^verbatim>\<open>getConfig\<close>; the fields that only feed the message text or
  the AI prompt (\<open>NAME\<close>, \<open>AGE\<close>, \<open>HEIGHT_CM\<close>) are left out. The optional AI rephrasing
  of the message in variant 2 changes only the text and swallows its own errors.
\<close>

record cfg =
  BOT_TOKEN :: "string option"
  CHAT_ID :: "string option"
  WEIGHT_KG :: real
  WAKE_TIME :: string
  SLEEP_TIME :: string
  QUIET_START :: real
  QUIET_END :: real
  MIN_INTERVAL_MIN :: real

record cfg_2 = cfg +
  ACTIVITY_LEVEL :: string
  DAILY_ACTIVITY_MINUTES :: real

definition getConfig_2 :: "envvars \<Rightarrow> cfg_2" where
  "getConfig_2 e =
     \<lparr>BOT_TOKEN = env_BOT_TOKEN e, CHAT_ID = env_CHAT_ID e,
      WEIGHT_KG = Number_env (env_WEIGHT_KG e) 70,
      WAKE_TIME = str_or (env_WAKE_TIME e) ''07:00'',
      SLEEP_TIME = str_or (env_SLEEP_TIME e) ''23:00'',
      QUIET_START = Number_env (env_QUIET_START_HOUR e) 23,
      QUIET_END = Number_env (env_QUIET_END_HOUR e) 7,
      MIN_INTERVAL_MIN = Number_env (env_MIN_INTERVAL_MIN e) 30,
      ACTIVITY_LEVEL = str_or (env_ACTIVITY_LEVEL e) ''Moderate'',
      DAILY_ACTIVITY_MINUTES = Number_env (env_DAILY_ACTIVITY_MINUTES e) 60\<rparr>"

definition handler_2 :: "world \<Rightarrow> notification_state \<Rightarrow> request \<Rightarrow> outcome" where
  "handler_2 w st req =
     (if http_method req \<noteq> ''POST'' then (Status405, [], st)
      else
        let cfg = getConfig_2 (w_vars w)
        in if \<not> truthy_str (BOT_TOKEN cfg) \<or> \<not> truthy_str (CHAT_ID cfg)
           then (Status500_config, [], st)
        else case body req of
          None \<Rightarrow> (Status500_server_error, [], st)
        | Some b \<Rightarrow>
         (case (b_ml b, b_pct b) of
            (Some ml, Some pct) \<Rightarrow>
              let chatId = chat_of (CHAT_ID cfg);
                  hour = getHours (w_tz w) (w_now w)
              in if real_of_int hour \<ge> QUIET_START cfg \<or> real_of_int hour < QUIET_END cfg
                 then (Skipped quiet_hours, [], st)
              else
                let goal_ml = computeGoalMl_2 (WEIGHT_KG cfg) (ACTIVITY_LEVEL cfg)
                                (DAILY_ACTIVITY_MINUTES cfg);
                    sched = makeSchedule (w_tz w) (clock_wake w) (clock_sleep w)
                              (ACTIVITY_LEVEL cfg) (WAKE_TIME cfg) (SLEEP_TIME cfg);
                    target_ml_now = js_round (js_mul goal_ml (Num (sched (w_now w))));
                    remaining_ml = js_max (Num 0) (js_sub goal_ml (Num ml));
                    last = last_of st chatId
                in if real_of_int (clock_rate w - last) < MIN_INTERVAL_MIN cfg * 60 * 1000
                   then (Skipped interval, [], st)
                else
                  let behind = js_less (Num (ml + 50)) target_ml_now;
                      veryLow = (pct < 40)
                  in if \<not> (behind \<or> veryLow) \<or> js_le remaining_ml (Num 0)
                     then (Skipped on_track_or_done, [], st)
                  else
                    let gap = js_max (Num 0) (js_sub target_ml_now (Num ml));
                        next_sip_ml = js_clamp (js_round (js_div gap (Num 3)))
                                        (Num (sipMin (ACTIVITY_LEVEL cfg)))
                                        (Num (sipMax (ACTIVITY_LEVEL cfg)))
                    in send_and_record w st chatId (Notified goal_ml target_ml_now next_sip_ml)
          | _ \<Rightarrow> (Status400, [], st)))"

section \<open>Variants 3 and 4: AI planner with rule-based fallback\<close>

subsection \<open>Activity normalisation\<close>

definition toLowerChar :: "char \<Rightarrow> char" where
  "toLowerChar c =
     (case map_of (zip ''ABCDEFGHIJKLMNOPQRSTUVWXYZ'' ''abcdefghijklmnopqrstuvwxyz'') c of
        None \<Rightarrow> c
      | Some d \<Rightarrow> d)"

definition toLowerCase :: "string \<Rightarrow> string" where
  "toLowerCase s = map toLowerChar s"

fun startsWith :: "string \<Rightarrow> string \<Rightarrow> bool" where
  "startsWith t [] = True"
| "startsWith [] (c # cs) = False"
| "startsWith (x # xs) (c # cs) = (x = c \<and> startsWith xs cs)"

fun includes_str :: "string \<Rightarrow> string \<Rightarrow> bool" where
  "includes_str [] sub = (sub = [])"
| "includes_str (x # xs) sub = (startsWith (x # xs) sub \<or> includes_str xs sub)"

definition normalizeActivity :: "string \<Rightarrow> string" where
  "normalizeActivity s =
     (let t = toLowerCase s
      in if includes_str t ''heavy'' then ''Heavy''
         else if includes_str t ''moderate'' then ''Moderate''
         else if includes_str t ''sedentary'' then ''Sedentary''
         else if includes_str t ''light'' then ''Light''
         else if includes_str t ''run'' \<or> includes_str t ''gym'' \<or> includes_str t ''match''
                 \<or> includes_str t ''intense'' \<or> includes_str t ''cycle'' then ''Heavy''
         else if includes_str t ''walk'' \<or> includes_str t ''jog'' \<or> includes_str t ''yoga''
                 \<or> includes_str t ''swim'' then ''Moderate''
         else ''Light'')"

subsection \<open>Configuration\<close>

record cfg_3 = cfg +
  ACT_MON :: string
  ACT_TUE :: string
  ACT_WED :: string
  ACT_THU :: string
  ACT_FRI :: string
  ACT_SAT :: string
  ACT_SUN :: string
  CLINICIAN_LIMIT_ML :: "real option"

definition getConfig_3 :: "envvars \<Rightarrow> cfg_3" where
  "getConfig_3 e =
     \<lparr>BOT_TOKEN = env_BOT_TOKEN e, CHAT_ID = env_CHAT_ID e,
      WEIGHT_KG = Number_env (env_WEIGHT_KG e) 70,
      WAKE_TIME = str_or (env_WAKE_TIME e) ''07:00'',
      SLEEP_TIME = str_or (env_SLEEP_TIME e) ''23:00'',
      QUIET_START = Number_env (env_QUIET_START_HOUR e) 23,
      QUIET_END = Number_env (env_QUIET_END_HOUR e) 7,
      MIN_INTERVAL_MIN = Number_env (env_MIN_INTERVAL_MIN e) 30,
      ACT_MON = str_or (env_ACTIVITY_MON e) ''Moderate'',
      ACT_TUE = str_or (env_ACTIVITY_TUE e) ''Moderate'',
      ACT_WED = str_or (env_ACTIVITY_WED e) ''Moderate'',
      ACT_THU = str_or (env_ACTIVITY_THU e) ''Moderate'',
      ACT_FRI = str_or (env_ACTIVITY_FRI e) ''Moderate'',
      ACT_SAT = str_or (env_ACTIVITY_SAT e) ''Light'',
      ACT_SUN = str_or (env_ACTIVITY_SUN e) ''Light'',
      CLINICIAN_LIMIT_ML = env_CLINICIAN_LIMIT_ML e\<rparr>"

text \<open>\<^verbatim>\<open>{1: MON, ..., 6: SAT, 0: SUN}[dow] || 'Light'\<close>.\<close>

definition dayActivity :: "cfg_3 \<Rightarrow> int \<Rightarrow> string" where
  "dayActivity cfg dow =
     str_or (if dow = 1 then Some (ACT_MON cfg) else if dow = 2 then Some (ACT_TUE cfg)
       else if dow = 3 then Some (ACT_WED cfg) else if dow = 4 then Some (ACT_THU cfg)
       else if dow = 5 then Some (ACT_FRI cfg) else if dow = 6 then Some (ACT_SAT cfg)
       else if dow = 0 then Some (ACT_SUN cfg) else None) ''Light''"

subsection \<open>The plan, from the fallback rules or from the AI\<close>

record plan =
  goal_ml :: jsnum
  target_ml_now :: jsnum
  next_sip_ml :: jsnum
  should_notify :: bool
  reason :: string

text \<open>
  The table lookup \<^verbatim>\<open>{Sedentary:0, Light:400, Moderate:800, Heavy:1200}[a] ?? 400\<close>, as
  the sum \<^verbatim>\<open>goal += ...\<close> followed by \<^verbatim>\<open>clamp\<close> reads it: an inherited member makes
  the sum a string that \<^verbatim>\<open>Math.min\<close> converts to \<open>NaN\<close>.
\<close>

definition addFlat :: "string \<Rightarrow> jsnum" where
  "addFlat a = (if a = ''Sedentary'' then Num 0 else if a = ''Light'' then Num 400
     else if a = ''Moderate'' then Num 800 else if a = ''Heavy'' then Num 1200
     else if a \<in> set inherited_members then NaN else Num 400)"

text \<open>
  \<^verbatim>\<open>fallbackPlan({weight_kg, activity, wakeStr='07:00', sleepStr='23:00'}, mlNow, pctNow, now)\<close>
  of variant 4. Both \<^verbatim>\<open>parseHM(wakeStr)\<close> and \<^verbatim>\<open>parseHM(sleepStr)\<close> are called with the
  default hour 7. Variant 3 is the same function at the fixed strings \<^verbatim>\<open>'07:00'\<close> and
  \<^verbatim>\<open>'23:00'\<close>; its reason text is \<^verbatim>\<open>'fallback'\<close>.
\<close>

text \<open>The closure \<^verbatim>\<open>d => ...\<close> of \<^verbatim>\<open>fallbackPlan\<close>: morning 35%, afternoon 45%, evening 20%.\<close>

definition fallbackFrac :: "int \<Rightarrow> int \<Rightarrow> int \<Rightarrow> real" where
  "fallbackFrac wk sl = fractionAt (35 / 100) (45 / 100) (20 / 100) wk sl"

definition fallbackPlan ::
  "int \<Rightarrow> int \<Rightarrow> int \<Rightarrow> string \<Rightarrow> real \<Rightarrow> string \<Rightarrow> string \<Rightarrow> string \<Rightarrow> real \<Rightarrow> real \<Rightarrow> int \<Rightarrow> plan" where
  "fallbackPlan tz cw cs why w activity wakeStr sleepStr mlNow pctNow now =
     (let goal = js_clamp (js_add (Num (Math_round (35 * w))) (addFlat activity))
                   (Num 1200) (Num 4000);
          wk = parseHM tz cw wakeStr 7 0;
          sl = parseHM tz cs sleepStr 7 0;
          frac = fallbackFrac wk sl now;
          targetByNow = js_round (js_mul goal (Num frac));
          remaining = js_max (Num 0) (js_sub goal (Num mlNow));
          behind = js_less (Num (mlNow + 50)) targetByNow;
          veryLow = (pctNow < 40);
          shouldNotify = ((behind \<or> veryLow) \<and> js_less (Num 0) remaining);
          gap = js_max (Num 0) (js_sub targetByNow (Num mlNow));
          sip = js_clamp (js_round (js_div gap (Num 3))) (Num 150) (Num 250)
      in \<lparr>goal_ml = goal, target_ml_now = targetByNow, next_sip_ml = sip,
          should_notify = shouldNotify, reason = why\<rparr>)"

text \<open>\<^verbatim>\<open>!!x\<close> on a JSON value that may be absent.\<close>

fun truthy :: "json option \<Rightarrow> bool" where
  "truthy None = False"
| "truthy (Some JNull) = False"
| "truthy (Some (JBool b)) = b"
| "truthy (Some (JNum x)) = (x \<noteq> 0)"
| "truthy (Some (JStr s)) = (s \<noteq> [])"
| "truthy (Some JObject) = True"

text \<open>
  \<^verbatim>\<open>clamp(Math.round(Number(x || 0)), lo, hi)\<close> on a field; \<open>None\<close> when the conversion
  throws. \<^verbatim>\<open>Math.round\<close> leaves an infinity as it is; \<^verbatim>\<open>Math.min(Infinity, hi)\<close> is \<open>hi\<close>,
  and \<^verbatim>\<open>Math.max(lo, Math.min(-Infinity, hi))\<close> is \<open>lo\<close> unless \<open>hi\<close> is \<open>NaN\<close>.
\<close>

fun sanitize :: "num_field \<Rightarrow> jsnum \<Rightarrow> jsnum \<Rightarrow> jsnum option" where
  "sanitize Missing lo hi = Some (js_clamp (js_round (Num 0)) lo hi)"
| "sanitize (Numeric x) lo hi = Some (js_clamp (js_round (Num x)) lo hi)"
| "sanitize (Infinite up) lo hi =
     Some (if up then js_max lo hi else (case hi of NaN \<Rightarrow> NaN | Num h \<Rightarrow> lo))"
| "sanitize NonNumeric lo hi = Some (js_clamp (js_round NaN) lo hi)"
| "sanitize Unconvertible lo hi = None"

text \<open>\<^verbatim>\<open>String(x || '')\<close> on a field; \<open>None\<close> when the conversion throws.\<close>

fun String_field :: "text_field \<Rightarrow> string option" where
  "String_field NoText = Some []"
| "String_field (Text s) = Some s"
| "String_field TextUnconvertible = None"

text \<open>
  \<^verbatim>\<open>aiPlan\<close>: \<open>None\<close> when it throws (\<^verbatim>\<open>no_ai_output\<close>, a rejected \<^verbatim>\<open>fetch\<close>, a
  failing \<^verbatim>\<open>JSON.parse\<close>, a field whose conversion throws), otherwise the sanitised
  plan.
\<close>

definition aiPlan :: "ai_reply \<Rightarrow> plan option" where
  "aiPlan r =
     (case r of
        Reply d \<Rightarrow>
          (case sanitize (daily_goal_ml d) (Num 800) (Num 6000) of
             None \<Rightarrow> None
           | Some goal \<Rightarrow>
               (case sanitize (target_ml_by_now d) (Num 0) goal of
                  None \<Rightarrow> None
                | Some target \<Rightarrow>
                    (case sanitize (d_next_sip_ml d) (Num 120) (Num 300) of
                       None \<Rightarrow> None
                     | Some sip \<Rightarrow>
                         (case String_field (short_reason d) of
                            None \<Rightarrow> None
                          | Some str \<Rightarrow>
                              Some \<lparr>goal_ml = goal, target_ml_now = target,
                                     next_sip_ml = sip,
                                     should_notify = truthy (d_should_notify d),
                                     reason = take 140 str\<rparr>))))
      | _ \<Rightarrow> None)"

subsection \<open>The handlers\<close>

text \<open>
  The two handlers differ in the strings the fallback parses for wake and sleep:
  variant 3 uses \<^verbatim>\<open>'07:00'\<close> and \<^verbatim>\<open>'23:00'\<close>, variant 4 the configured ones.
\<close>

definition choosePlan ::
  "world \<Rightarrow> cfg_3 \<Rightarrow> string \<Rightarrow> string \<Rightarrow> string \<Rightarrow> real \<Rightarrow> real \<Rightarrow> plan" where
  "choosePlan w cfg why wakeStr sleepStr ml pct =
     (let dow = getDay (w_tz w) (clock_dow w);
          dayAct = dayActivity cfg dow;
          fb = fallbackPlan (w_tz w) (clock_wake w) (clock_sleep w) why (WEIGHT_KG cfg)
                 (normalizeActivity dayAct) wakeStr sleepStr ml pct (w_now w)
      in if truthy_str (env_OPENAI_API_KEY (w_vars w))
         then (case aiPlan (w_ai w) of Some p \<Rightarrow> p | None \<Rightarrow> fb)
         else fb)"

definition handler_ai ::
  "string \<Rightarrow> (cfg_3 \<Rightarrow> string) \<Rightarrow> (cfg_3 \<Rightarrow> string) \<Rightarrow> world \<Rightarrow> notification_state \<Rightarrow> request \<Rightarrow> outcome" where
  "handler_ai why wakeStr sleepStr w st req =
     (if http_method req \<noteq> ''POST'' then (Status405, [], st)
      else
        let cfg = getConfig_3 (w_vars w)
        in if \<not> truthy_str (BOT_TOKEN cfg) \<or> \<not> truthy_str (CHAT_ID cfg)
           then (Status500_config, [], st)
        else case body req of
          None \<Rightarrow> (Status500_server_error, [], st)
        | Some b \<Rightarrow>
         (case (b_ml b, b_pct b) of
            (Some ml, Some pct) \<Rightarrow>
              let chatId = chat_of (CHAT_ID cfg);
                  hour = getHours (w_tz w) (w_now w)
              in if real_of_int hour \<ge> QUIET_START cfg \<or> real_of_int hour < QUIET_END cfg
                 then (Skipped quiet_hours, [], st)
              else
                let last = last_of st chatId
                in if real_of_int (clock_rate w - last) < MIN_INTERVAL_MIN cfg * 60 * 1000
                   then (Skipped interval, [], st)
                else
                  let plan = choosePlan w cfg why (wakeStr cfg) (sleepStr cfg) ml pct;
                      remaining_ml = js_max (Num 0) (js_sub (goal_ml plan) (Num ml))
                  in if \<not> should_notify plan \<or> js_le remaining_ml (Num 0)
                     then (Skipped on_track_or_done, [], st)
                  else send_and_record w st chatId
                         (Notified (goal_ml plan) (target_ml_now plan) (next_sip_ml plan))
          | _ \<Rightarrow> (Status400, [], st)))"

definition handler_3 :: "world \<Rightarrow> notification_state \<Rightarrow> request \<Rightarrow> outcome" where
  "handler_3 = handler_ai ''fallback'' (\<lambda>cfg. ''07:00'') (\<lambda>cfg. ''23:00'')"

definition handler_4 :: "world \<Rightarrow> notification_state \<Rightarrow> request \<Rightarrow> outcome" where
  "handler_4 = handler_ai ''fallback schedule'' WAKE_TIME SLEEP_TIME"

section \<open>The goal formula as the specification words it\<close>

text \<open>
  The table \<^verbatim>\<open>{Sedentary:0, Light:200, Moderate:400, Heavy:600}\<close> has the four enum
  values as its only keys.
\<close>

definition spec_addPer :: "string \<rightharpoonup> real" where
  "spec_addPer = map_of [(''Sedentary'', 0), (''Light'', 200), (''Moderate'', 400),
     (''Heavy'', 600)]"

text \<open>Capped by the clinician limit, else soft-capped at 2000 for "ckd" or "hf".\<close>

definition spec_cap :: "ctx \<Rightarrow> real \<Rightarrow> real" where
  "spec_cap c g =
     (case clinician_limit_ml c of
        Some l \<Rightarrow> min g l
      | None \<Rightarrow> if ''ckd'' \<in> set (medical_conditions c) \<or> ''hf'' \<in> set (medical_conditions c)
                then min g 2000 else g)"

text \<open>The formula with \<open>round(activity_minutes / 30)\<close> blocks, as the claim states it.\<close>

definition spec_goal_ml :: "ctx \<Rightarrow> real option" where
  "spec_goal_ml c =
     (case spec_addPer (activity_level c) of
        None \<Rightarrow> None
      | Some a \<Rightarrow>
          Some (clamp (spec_cap c (Math_round (35 * weight_kg c)
                  + Math_round (daily_activity_minutes c / 30) * a
                  + (if hot_or_humid c then 300 else 0))) 1200 4000))"

text \<open>The same formula with the number of blocks never below zero.\<close>

definition spec_goal_ml_blocks :: "ctx \<Rightarrow> real option" where
  "spec_goal_ml_blocks c =
     (case spec_addPer (activity_level c) of
        None \<Rightarrow> None
      | Some a \<Rightarrow>
          Some (clamp (spec_cap c (Math_round (35 * weight_kg c)
                  + max 0 (Math_round (daily_activity_minutes c / 30)) * a
                  + (if hot_or_humid c then 300 else 0))) 1200 4000))"

text \<open>A context with no ambient reading, no medical condition and no clinician limit.\<close>

definition plain_ctx :: "real \<Rightarrow> string \<Rightarrow> real \<Rightarrow> ctx" where
  "plain_ctx w a m = \<lparr>weight_kg = w, activity_level = a, daily_activity_minutes = m,
     medical_conditions = [], clinician_limit_ml = None, temp_c = None, humidity_pct = None,
     wake = 0, sleep = 0\<rparr>"

section \<open>Concrete inputs used in the examples\<close>

text \<open>A day profile: 70 kg, Moderate, 60 minutes, awake from 07:00 to 23:00 (day 0, UTC).\<close>

definition day_ctx :: ctx where
  "day_ctx = (plain_ctx 70 ''Moderate'' 60)\<lparr>wake := 25200000, sleep := 82800000\<rparr>"

text \<open>A night-shift profile: wake time 23:00, sleep time 07:00, normalised at noon.\<close>

definition night_profile :: profile where
  "night_profile = no_profile\<lparr>p_wake_time := Some ''23:00'', p_sleep_time := Some ''07:00''\<rparr>"

definition night_ctx :: ctx where
  "night_ctx = fst (contextOf 0 0 night_profile 43200000)"

section \<open>Reading an outcome, and the stages of a request\<close>

definition response_of :: "outcome \<Rightarrow> response" where
  "response_of out = fst out"

definition effects_of :: "outcome \<Rightarrow> effect list" where
  "effects_of out = fst (snd out)"

definition state_of :: "outcome \<Rightarrow> notification_state" where
  "state_of out = snd (snd out)"

fun is_Send :: "effect \<Rightarrow> bool" where
  "is_Send (Send c) = True"
| "is_Send (SetLastNotified c t) = False"

text \<open>The invocation issues the call to the messaging provider.\<close>

definition sends :: "outcome \<Rightarrow> bool" where
  "sends out = list_ex is_Send (effects_of out)"

fun is_Notified :: "response \<Rightarrow> bool" where
  "is_Notified (Notified g t s) = True"
| "is_Notified _ = False"

text \<open>
  A request that passes the checks in front of the gates: a POST whose body parses and
  holds \<open>ml\<close> and \<open>pct\<close>, with both credentials configured.
\<close>

definition well_formed :: "world \<Rightarrow> request \<Rightarrow> bool" where
  "well_formed w req =
     (http_method req = ''POST''
      \<and> (case body req of None \<Rightarrow> False | Some b \<Rightarrow> b_ml b \<noteq> None \<and> b_pct b \<noteq> None)
      \<and> truthy_str (env_CHAT_ID (w_vars w)) \<and> truthy_str (env_BOT_TOKEN (w_vars w)))"

definition recipient :: "world \<Rightarrow> string" where
  "recipient w = chat_of (env_CHAT_ID (w_vars w))"

definition local_hour :: "world \<Rightarrow> int" where
  "local_hour w = getHours (w_tz w) (w_now w)"

text \<open>
  The quiet-hours condition as the specification words it:
  \<open>hour >= quiet_start_hour OR hour < quiet_end_hour\<close>.
\<close>

definition spec_quiet :: "real \<Rightarrow> real \<Rightarrow> int \<Rightarrow> bool" where
  "spec_quiet quiet_start quiet_end h = (real_of_int h \<ge> quiet_start \<or> real_of_int h < quiet_end)"

text \<open>The bounds in force: constants in variant 1, configured in variants 2 to 4.\<close>

definition quiet_start_of :: "world \<Rightarrow> real" where
  "quiet_start_of w = Number_env (env_QUIET_START_HOUR (w_vars w)) 23"

definition quiet_end_of :: "world \<Rightarrow> real" where
  "quiet_end_of w = Number_env (env_QUIET_END_HOUR (w_vars w)) 7"

definition min_interval_of :: "world \<Rightarrow> real" where
  "min_interval_of w = Number_env (env_MIN_INTERVAL_MIN (w_vars w)) 30"

text \<open>
  The cooldown condition as the specification words it:
  \<open>now - lastNotified[recipient] < min_interval_minutes\<close>, in milliseconds.
\<close>

definition spec_cooldown :: "real \<Rightarrow> int \<Rightarrow> int \<Rightarrow> bool" where
  "spec_cooldown minutes clock lastNotified = (real_of_int (clock - lastNotified) < minutes * 60000)"

text \<open>The decision as the specification words it: \<open>(behind OR veryLow) AND remaining_ml > 0\<close>.\<close>

definition spec_notify :: "real \<Rightarrow> real \<Rightarrow> real \<Rightarrow> real \<Rightarrow> bool" where
  "spec_notify goal target ml pct = ((ml + 50 < target \<or> pct < 40) \<and> max 0 (goal - ml) > 0)"

text \<open>The sip as the specification words it.\<close>

definition spec_sip_bounds :: "string \<Rightarrow> real \<times> real" where
  "spec_sip_bounds a = (if a = ''Heavy'' then (200, 300) else if a = ''Moderate'' then (180, 250)
     else (150, 220))"

definition spec_sip :: "string \<Rightarrow> real \<Rightarrow> real \<Rightarrow> real" where
  "spec_sip a target ml =
     clamp (Math_round (max 0 (target - ml) / 3)) (fst (spec_sip_bounds a)) (snd (spec_sip_bounds a))"

text \<open>
  The object whose fields \<^verbatim>\<open>computeContext\<close> reads: the profile of the request, or the
  default \<^verbatim>\<open>{}\<close> when the request has none (on \<^verbatim>\<open>null\<close> the function throws and reads
  nothing).
\<close>

fun fields_of :: "profile_arg \<Rightarrow> profile" where
  "fields_of (Profile p) = p"
| "fields_of _ = no_profile"

text \<open>The profile of the request is \<^verbatim>\<open>null\<close>.\<close>

definition null_profile :: "request \<Rightarrow> bool" where
  "null_profile req = (case body req of None \<Rightarrow> False | Some b \<Rightarrow> b_profile b = NullProfile)"

text \<open>
  The context, goal and target that variant 1 computes for a request body whose profile
  is not \<^verbatim>\<open>null\<close>.
\<close>

definition ctx_of_1 :: "world \<Rightarrow> reading \<Rightarrow> ctx" where
  "ctx_of_1 w b = fst (contextOf (w_tz w) (clock_sleep w) (fields_of (b_profile b)) (w_now w))"

definition now_of_1 :: "world \<Rightarrow> reading \<Rightarrow> int" where
  "now_of_1 w b = snd (contextOf (w_tz w) (clock_sleep w) (fields_of (b_profile b)) (w_now w))"

definition goal_of_1 :: "world \<Rightarrow> reading \<Rightarrow> jsnum" where
  "goal_of_1 w b = computeGoalMl (ctx_of_1 w b)"

definition target_of_1 :: "world \<Rightarrow> reading \<Rightarrow> jsnum" where
  "target_of_1 w b = js_round (js_mul (goal_of_1 w b)
     (Num (computeSchedule (ctx_of_1 w b) (now_of_1 w b))))"

text \<open>The goal and target that variant 2 computes from the environment.\<close>

definition goal_of_2 :: "world \<Rightarrow> jsnum" where
  "goal_of_2 w = computeGoalMl_2 (WEIGHT_KG (getConfig_2 (w_vars w)))
     (ACTIVITY_LEVEL (getConfig_2 (w_vars w))) (DAILY_ACTIVITY_MINUTES (getConfig_2 (w_vars w)))"

definition target_of_2 :: "world \<Rightarrow> jsnum" where
  "target_of_2 w = js_round (js_mul (goal_of_2 w)
     (Num (makeSchedule (w_tz w) (clock_wake w) (clock_sleep w)
         (ACTIVITY_LEVEL (getConfig_2 (w_vars w))) (WAKE_TIME (getConfig_2 (w_vars w)))
         (SLEEP_TIME (getConfig_2 (w_vars w))) (w_now w))))"



text \<open>
  A deployment with both credentials and nothing else configured, on Monday
  2024-06-03 (UTC), every clock reading of the invocation at the same instant; the
  messaging provider answers, the text-generation provider is not configured.
\<close>

definition base_env :: envvars where
  "base_env = \<lparr>env_BOT_TOKEN = Some ''token'', env_CHAT_ID = Some ''chat'',
     env_WEIGHT_KG = None, env_ACTIVITY_LEVEL = None, env_DAILY_ACTIVITY_MINUTES = None,
     env_WAKE_TIME = None, env_SLEEP_TIME = None, env_QUIET_START_HOUR = None,
     env_QUIET_END_HOUR = None, env_MIN_INTERVAL_MIN = None, env_ACTIVITY_MON = None,
     env_ACTIVITY_TUE = None, env_ACTIVITY_WED = None, env_ACTIVITY_THU = None,
     env_ACTIVITY_FRI = None, env_ACTIVITY_SAT = None, env_ACTIVITY_SUN = None,
     env_CLINICIAN_LIMIT_ML = None, env_OPENAI_API_KEY = None\<rparr>"

definition at_time :: "int \<Rightarrow> int \<Rightarrow> int" where
  "at_time h m = 1717372800000 + h * 3600000 + m * 60000"

definition world_at :: "int \<Rightarrow> world" where
  "world_at t = \<lparr>w_vars = base_env, w_tz = 0, w_now = t, clock_wake = t, clock_sleep = t,
     clock_dow = t, clock_rate = t, clock_set = t, send_ok = True, w_ai = FetchError\<rparr>"

definition reading_of :: "real \<Rightarrow> real \<Rightarrow> reading" where
  "reading_of ml pct = \<lparr>b_ml = Some ml, b_pct = Some pct, b_profile = NoProfile\<rparr>"

definition post :: "reading \<Rightarrow> request" where
  "post b = \<lparr>http_method = ''POST'', body = Some b\<rparr>"

section \<open>The four variants side by side\<close>

datatype variant = Variant1 | Variant2 | Variant3 | Variant4

fun handler :: "variant \<Rightarrow> world \<Rightarrow> notification_state \<Rightarrow> request \<Rightarrow> outcome" where
  "handler Variant1 = handler_1"
| "handler Variant2 = handler_2"
| "handler Variant3 = handler_3"
| "handler Variant4 = handler_4"

text \<open>
  The quiet-hours bounds and the minimum interval in force: the constants 23, 7 and 30
  in variant 1, the configured values (with the same defaults) in the others.
\<close>

fun quiet_start :: "variant \<Rightarrow> world \<Rightarrow> real" where
  "quiet_start Variant1 w = 23"
| "quiet_start v w = quiet_start_of w"

fun quiet_end :: "variant \<Rightarrow> world \<Rightarrow> real" where
  "quiet_end Variant1 w = 7"
| "quiet_end v w = quiet_end_of w"

fun min_interval :: "variant \<Rightarrow> world \<Rightarrow> real" where
  "min_interval Variant1 w = 30"
| "min_interval v w = min_interval_of w"

definition get_request :: request where
  "get_request = \<lparr>http_method = ''GET'', body = None\<rparr>"

text \<open>The same deployment when the messaging provider cannot be reached.\<close>

definition offline_world_at :: "int \<Rightarrow> world" where
  "offline_world_at t = (world_at t)\<lparr>send_ok := False\<rparr>"

text \<open>The same deployment with Monday configured as a Heavy day.\<close>

definition heavy_world_at :: "int \<Rightarrow> world" where
  "heavy_world_at t = (world_at t)\<lparr>w_vars := base_env\<lparr>env_ACTIVITY_MON := Some ''Heavy''\<rparr>\<rparr>"

text \<open>A request of variant 1 that brings a Heavy profile with wake and sleep times.\<close>

definition heavy_profile :: profile where
  "heavy_profile = no_profile\<lparr>p_weight_kg := Some 70, p_activity_level := Some ''Heavy'',
     p_wake_time := Some ''07:00'', p_sleep_time := Some ''23:00''\<rparr>"

definition heavy_reading :: "real \<Rightarrow> real \<Rightarrow> reading" where
  "heavy_reading ml pct = \<lparr>b_ml = Some ml, b_pct = Some pct, b_profile = Profile heavy_profile\<rparr>"



text \<open>A request of variant 1 whose profile describes the activity in free text.\<close>

definition gym_reading :: "real \<Rightarrow> real \<Rightarrow> reading" where
  "gym_reading ml pct = \<lparr>b_ml = Some ml, b_pct = Some pct,
     b_profile = Profile (no_profile\<lparr>p_activity_level := Some ''gym''\<rparr>)\<rparr>"







text \<open>The four enum values.\<close>

definition activity_levels :: "string set" where
  "activity_levels = {''Sedentary'', ''Light'', ''Moderate'', ''Heavy''}"

text \<open>
  The flat table \<^verbatim>\<open>{Sedentary:0, Light:400, Moderate:800, Heavy:1200}\<close> of the fallback
  plan, with the four enum values as its only keys.
\<close>

definition spec_addFlat :: "string \<rightharpoonup> real" where
  "spec_addFlat = map_of [(''Sedentary'', 0), (''Light'', 400), (''Moderate'', 800),
     (''Heavy'', 1200)]"


section \<open>The decision and the sip on numbers that may be \<open>NaN\<close>\<close>

text \<open>
  The test \<^verbatim>\<open>!(behind || veryLow) || remaining_ml <= 0\<close> of the rule-based handlers,
  negated, and their sip \<^verbatim>\<open>clamp(Math.round(gap / 3), baseMin, baseMax)\<close>, as functions of
  the goal and the target.
\<close>

definition passes_decision :: "jsnum \<Rightarrow> jsnum \<Rightarrow> real \<Rightarrow> real \<Rightarrow> bool" where
  "passes_decision goal target ml pct =
     ((js_less (Num (ml + 50)) target \<or> pct < 40)
      \<and> \<not> js_le (js_max (Num 0) (js_sub goal (Num ml))) (Num 0))"

definition sip_of :: "string \<Rightarrow> jsnum \<Rightarrow> real \<Rightarrow> jsnum" where
  "sip_of a target ml =
     js_clamp (js_round (js_div (js_max (Num 0) (js_sub target (Num ml))) (Num 3)))
       (Num (sipMin a)) (Num (sipMax a))"

text \<open>The test \<^verbatim>\<open>!plan.should_notify || remaining_ml <= 0\<close> of variants 3 and 4, negated.\<close>

definition passes_plan :: "plan \<Rightarrow> real \<Rightarrow> bool" where
  "passes_plan p ml =
     (should_notify p \<and> \<not> js_le (js_max (Num 0) (js_sub (goal_ml p) (Num ml))) (Num 0))"


text \<open>
  An answer of the text-generation provider that asks for a notification: goal 2000,
  target 500, sip 200.
\<close>

definition eager_data :: ai_data where
  "eager_data = \<lparr>daily_goal_ml = Numeric 2000, target_ml_by_now = Numeric 500,
     d_next_sip_ml = Numeric 200, d_should_notify = Some (JBool True),
     short_reason = Text ''Time to drink.''\<rparr>"

text \<open>A request of variant 1 whose profile names an inherited member as its activity.\<close>

definition constructor_reading :: "real \<Rightarrow> real \<Rightarrow> reading" where
  "constructor_reading ml pct = \<lparr>b_ml = Some ml, b_pct = Some pct,
     b_profile = Profile (no_profile\<lparr>p_activity_level := Some ''constructor''\<rparr>)\<rparr>"

text \<open>A request of variant 1 whose profile is \<^verbatim>\<open>null\<close>.\<close>

definition null_reading :: "real \<Rightarrow> real \<Rightarrow> reading" where
  "null_reading ml pct = \<lparr>b_ml = Some ml, b_pct = Some pct, b_profile = NullProfile\<rparr>"

section \<open>Auxiliary facts\<close>

lemma spec_addPer_Some: "spec_addPer a = Some x \<Longrightarrow> addPer a = Num x"
  by (auto simp: spec_addPer_def addPer_def split: if_splits)

lemma js_clamp_Num: "js_clamp (Num v) (Num lo) (Num hi) = Num (clamp v lo hi)"
  by (simp add: js_clamp_def clamp_def)

section \<open>Goal calculator\<close>

text \<open>
  Claim C2, as stated: the goal is the clamp to [1200, 4000] of the capped sum of
  \<open>round(35 * weight_kg)\<close>, \<open>round(activity_minutes / 30)\<close> times the table entry of the
  activity level, and 300 when it is hot or humid. The source takes
  \<^verbatim>\<open>Math.max(0, Math.round(minutes / 30))\<close> blocks, so for 70 kg, Moderate and -60
  minutes the stated formula gives 1650 and the code 2450.
\<close>

theorem goal_formula_counterexample:
  "spec_goal_ml (plain_ctx 70 ''Moderate'' (- 60)) = Some 1650
   \<and> computeGoalMl (plain_ctx 70 ''Moderate'' (- 60)) = Num 2450"
  by (simp add: spec_goal_ml_def spec_addPer_def plain_ctx_def spec_cap_def
      hot_or_humid_def Math_round_def clamp_def computeGoalMl_def addPer_def js_clamp_def)

text \<open>
  Claim C2, amended: with the number of 30-minute blocks taken as
  \<open>max(0, round(activity_minutes / 30))\<close>, the goal calculator computes the stated
  formula for each of the four activity levels; the result lies in [1200, 4000]; it
  agrees with the formula as stated whenever the rounded block count is not negative;
  and the three-argument calculator of variant 2 computes the same value when there is
  no ambient reading, medical condition or clinician limit.
\<close>

theorem goal_formula:
  assumes "spec_goal_ml_blocks c = Some g"
  shows "computeGoalMl c = Num g \<and> 1200 \<le> g \<and> g \<le> 4000
    \<and> (0 \<le> Math_round (daily_activity_minutes c / 30) \<longrightarrow> spec_goal_ml c = Some g)
    \<and> (c = plain_ctx w a m \<longrightarrow> computeGoalMl_2 w a m = Num g)"
proof -
  from assms obtain x where x: "spec_addPer (activity_level c) = Some x"
    by (auto simp: spec_goal_ml_blocks_def split: option.splits)
  then have ax: "addPer (activity_level c) = Num x"
    by (rule spec_addPer_Some)
  from assms x have g: "computeGoalMl c = Num g"
    by (auto simp: spec_goal_ml_blocks_def computeGoalMl_def spec_cap_def ax Let_def
        js_clamp_Num split: option.splits)
  from assms x have bounds: "1200 \<le> g \<and> g \<le> 4000"
    by (auto simp: spec_goal_ml_blocks_def clamp_def)
  have stated: "spec_goal_ml c = Some g" if "0 \<le> Math_round (daily_activity_minutes c / 30)"
    using assms x that by (simp add: spec_goal_ml_blocks_def spec_goal_ml_def max_def)
  have v2: "computeGoalMl_2 w a m = Num g" if "c = plain_ctx w a m"
    using g that
    by (simp add: computeGoalMl_def computeGoalMl_2_def plain_ctx_def hot_or_humid_def Let_def)
  from g bounds stated v2 show ?thesis
    by blast
qed

text \<open>
  The two examples of the specification: 70 kg, Moderate, 60 minutes gives 3250, and
  10 kg, Sedentary gives the floor 1200.
\<close>

theorem goal_formula_witness:
  "spec_goal_ml_blocks (plain_ctx 70 ''Moderate'' 60) = Some 3250
   \<and> computeGoalMl (plain_ctx 70 ''Moderate'' 60) = Num 3250
   \<and> spec_goal_ml (plain_ctx 70 ''Moderate'' 60) = Some 3250
   \<and> computeGoalMl_2 70 ''Moderate'' 60 = Num 3250
   \<and> spec_goal_ml_blocks (plain_ctx 10 ''Sedentary'' 30) = Some 1200
   \<and> computeGoalMl (plain_ctx 10 ''Sedentary'' 30) = Num 1200"
proof -
  have a: "spec_goal_ml_blocks (plain_ctx 70 ''Moderate'' 60) = Some 3250"
    by (simp add: spec_goal_ml_blocks_def spec_addPer_def plain_ctx_def spec_cap_def
        hot_or_humid_def Math_round_def clamp_def)
  have r: "0 \<le> Math_round (daily_activity_minutes (plain_ctx 70 ''Moderate'' 60) / 30)"
    by (simp add: plain_ctx_def Math_round_def)
  have b: "spec_goal_ml_blocks (plain_ctx 10 ''Sedentary'' 30) = Some 1200"
    by (simp add: spec_goal_ml_blocks_def spec_addPer_def plain_ctx_def spec_cap_def
        hot_or_humid_def Math_round_def clamp_def)
  show ?thesis
    using a b r goal_formula [OF a, of 70 "''Moderate''" 60] goal_formula [OF b, of 10 "''Sedentary''" 30]
    by simp
qed

section \<open>Pacing scheduler\<close>

lemma timeClip_mono: "x \<le> y \<Longrightarrow> timeClip x \<le> timeClip y"
proof -
  assume xy: "x \<le> y"
  have fl: "\<lfloor>x\<rfloor> \<le> \<lfloor>y\<rfloor>" and ce: "\<lceil>x\<rceil> \<le> \<lceil>y\<rceil>"
    using xy by (simp_all add: floor_mono ceiling_mono)
  have mixed: "\<lceil>x\<rceil> \<le> \<lfloor>y\<rfloor>" if "x < 0" "0 \<le> y"
  proof -
    from that have "\<lceil>x\<rceil> \<le> 0" by (simp add: ceiling_le_iff)
    moreover from that have "0 \<le> \<lfloor>y\<rfloor>" by simp
    ultimately show ?thesis by linarith
  qed
  show ?thesis
    using xy fl ce mixed by (auto simp: timeClip_def)
qed

lemma timeClip_of_int: "timeClip (real_of_int n) = n"
  by (simp add: timeClip_def)

lemma tMorningEnd_ge: "wk \<le> tMorningEnd wk sl"
proof -
  have "real_of_int wk \<le> real_of_int wk + real_of_int (max 1 (sl - wk)) * (33 / 100)"
    by simp
  from timeClip_mono [OF this] show ?thesis
    by (simp add: tMorningEnd_def timeClip_of_int)
qed

lemma tMorningEnd_le_tAfternoonEnd: "tMorningEnd wk sl \<le> tAfternoonEnd wk sl"
  unfolding tMorningEnd_def tAfternoonEnd_def
  by (rule timeClip_mono) simp

lemma tAfternoonEnd_le: "wk < sl \<Longrightarrow> tAfternoonEnd wk sl \<le> sl"
proof -
  assume "wk < sl"
  then have d: "real_of_int (max 1 (sl - wk)) = real_of_int sl - real_of_int wk"
    and "real_of_int wk < real_of_int sl"
    by simp_all
  then have "real_of_int wk + real_of_int (max 1 (sl - wk)) * (80 / 100) \<le> real_of_int sl"
    by (simp only: d) (simp add: field_simps)
  from timeClip_mono [OF this] show ?thesis
    by (simp add: tAfternoonEnd_def timeClip_of_int)
qed

lemma ratio_unit:
  fixes a x b :: int
  assumes "a \<le> x" "x \<le> b" "a < b"
  shows "0 \<le> real_of_int (x - a) / real_of_int (b - a)"
    and "real_of_int (x - a) / real_of_int (b - a) \<le> 1"
  using assms by simp_all

lemma ratio_mono:
  fixes a x y b :: int
  assumes "x \<le> y" "a < b"
  shows "real_of_int (x - a) / real_of_int (b - a) \<le> real_of_int (y - a) / real_of_int (b - a)"
  using assms by (simp add: divide_right_mono)

lemma scale_unit:
  fixes f k :: real
  assumes "0 \<le> f" "f \<le> 1" "0 \<le> k"
  shows "0 \<le> f * k" and "f * k \<le> k"
  using assms by (simp_all add: mult_left_le_one_le mult.commute)

text \<open>The value of \<open>fractionAt\<close> in each of its five branches.\<close>

lemma fractionAt_before: "now \<le> wk \<Longrightarrow> fractionAt m a e wk sl now = 0"
  by (simp add: fractionAt_def)

lemma fractionAt_after: "wk < now \<Longrightarrow> sl \<le> now \<Longrightarrow> fractionAt m a e wk sl now = 1"
  by (simp add: fractionAt_def)

lemma fractionAt_morning:
  "wk < now \<Longrightarrow> now < sl \<Longrightarrow> now \<le> tMorningEnd wk sl \<Longrightarrow>
   fractionAt m a e wk sl now
     = real_of_int (now - wk) / real_of_int (tMorningEnd wk sl - wk) * m"
  by (simp add: fractionAt_def)

lemma fractionAt_afternoon:
  "wk < now \<Longrightarrow> now < sl \<Longrightarrow> tMorningEnd wk sl < now \<Longrightarrow> now \<le> tAfternoonEnd wk sl \<Longrightarrow>
   fractionAt m a e wk sl now
     = m + real_of_int (now - tMorningEnd wk sl)
           / real_of_int (tAfternoonEnd wk sl - tMorningEnd wk sl) * a"
  by (simp add: fractionAt_def)

lemma fractionAt_evening:
  "wk < now \<Longrightarrow> now < sl \<Longrightarrow> tMorningEnd wk sl < now \<Longrightarrow> tAfternoonEnd wk sl < now \<Longrightarrow>
   fractionAt m a e wk sl now
     = m + a + real_of_int (now - tAfternoonEnd wk sl)
               / real_of_int (sl - tAfternoonEnd wk sl) * e"
  by (simp add: fractionAt_def)

text \<open>The band of values of each phase of the day.\<close>

lemma morning_band:
  assumes "0 \<le> m" "wk < now" "now < sl" "now \<le> tMorningEnd wk sl"
  shows "0 \<le> fractionAt m a e wk sl now \<and> fractionAt m a e wk sl now \<le> m"
proof -
  let ?f = "real_of_int (now - wk) / real_of_int (tMorningEnd wk sl - wk)"
  have "0 \<le> ?f" "?f \<le> 1"
    using assms by (simp_all add: ratio_unit)
  then have "0 \<le> ?f * m \<and> ?f * m \<le> m"
    using assms(1) scale_unit by blast
  then show ?thesis
    using assms by (simp add: fractionAt_morning)
qed

lemma afternoon_band:
  assumes "0 \<le> a" "wk < now" "now < sl" "tMorningEnd wk sl < now" "now \<le> tAfternoonEnd wk sl"
  shows "m \<le> fractionAt m a e wk sl now \<and> fractionAt m a e wk sl now \<le> m + a"
proof -
  let ?f = "real_of_int (now - tMorningEnd wk sl)
             / real_of_int (tAfternoonEnd wk sl - tMorningEnd wk sl)"
  have "0 \<le> ?f" "?f \<le> 1"
    using assms by (simp_all add: ratio_unit)
  then have "0 \<le> ?f * a \<and> ?f * a \<le> a"
    using assms(1) scale_unit by blast
  then show ?thesis
    using assms by (simp add: fractionAt_afternoon)
qed

lemma evening_band:
  assumes "0 \<le> e" "wk < now" "now < sl" "tMorningEnd wk sl < now" "tAfternoonEnd wk sl < now"
  shows "m + a \<le> fractionAt m a e wk sl now \<and> fractionAt m a e wk sl now \<le> m + a + e"
proof -
  let ?f = "real_of_int (now - tAfternoonEnd wk sl) / real_of_int (sl - tAfternoonEnd wk sl)"
  have "0 \<le> ?f" "?f \<le> 1"
    using assms by (simp_all add: ratio_unit)
  then have "0 \<le> ?f * e \<and> ?f * e \<le> e"
    using assms(1) scale_unit by blast
  then show ?thesis
    using assms by (simp add: fractionAt_evening)
qed

lemma fractionAt_range:
  assumes "0 \<le> m" "0 \<le> a" "0 \<le> e" "m + a + e = 1"
  shows "0 \<le> fractionAt m a e wk sl now \<and> fractionAt m a e wk sl now \<le> 1"
proof -
  consider "now \<le> wk" | "wk < now" "sl \<le> now"
    | "wk < now" "now < sl" "now \<le> tMorningEnd wk sl"
    | "wk < now" "now < sl" "tMorningEnd wk sl < now" "now \<le> tAfternoonEnd wk sl"
    | "wk < now" "now < sl" "tMorningEnd wk sl < now" "tAfternoonEnd wk sl < now"
    by linarith
  then show ?thesis
  proof cases
    case 1
    then show ?thesis by (simp add: fractionAt_before)
  next
    case 2
    then show ?thesis by (simp add: fractionAt_after)
  next
    case 3
    from morning_band [OF assms(1) 3, of a e] assms show ?thesis by linarith
  next
    case 4
    from afternoon_band [OF assms(2) 4, of m e] assms show ?thesis by linarith
  next
    case 5
    from evening_band [OF assms(3) 5, of m a] assms show ?thesis by linarith
  qed
qed

lemma fractionAt_mono:
  assumes pos: "0 \<le> m" "0 \<le> a" "0 \<le> e" "m + a + e = 1" and le: "t1 \<le> t2"
  shows "fractionAt m a e wk sl t1 \<le> fractionAt m a e wk sl t2"
proof -
  note rng = fractionAt_range [OF pos, of wk sl]
  consider "t2 \<le> wk" | "wk < t2" "sl \<le> t2"
    | "wk < t2" "t2 < sl" "t2 \<le> tMorningEnd wk sl"
    | "wk < t2" "t2 < sl" "tMorningEnd wk sl < t2" "t2 \<le> tAfternoonEnd wk sl"
    | "wk < t2" "t2 < sl" "tMorningEnd wk sl < t2" "tAfternoonEnd wk sl < t2"
    by linarith
  then show ?thesis
  proof cases
    case 1
    with le show ?thesis by (simp add: fractionAt_before)
  next
    case 2
    then show ?thesis using rng [of t1] by (simp add: fractionAt_after)
  next
    case 3
    show ?thesis
    proof (cases "t1 \<le> wk")
      case True
      then show ?thesis using rng [of t2] by (simp add: fractionAt_before)
    next
      case False
      then have t1: "wk < t1" "t1 < sl" "t1 \<le> tMorningEnd wk sl"
        using le 3 by simp_all
      have "real_of_int (t1 - wk) / real_of_int (tMorningEnd wk sl - wk)
          \<le> real_of_int (t2 - wk) / real_of_int (tMorningEnd wk sl - wk)"
        using le t1 by (intro ratio_mono) simp_all
      then have "real_of_int (t1 - wk) / real_of_int (tMorningEnd wk sl - wk) * m
          \<le> real_of_int (t2 - wk) / real_of_int (tMorningEnd wk sl - wk) * m"
        using pos(1) by (rule mult_right_mono)
      then show ?thesis
        by (simp only: fractionAt_morning [OF t1] fractionAt_morning [OF 3])
    qed
  next
    case 4
    consider "t1 \<le> wk" | "wk < t1" "t1 \<le> tMorningEnd wk sl" | "tMorningEnd wk sl < t1"
      by linarith
    then show ?thesis
    proof cases
      case 1
      then show ?thesis using rng [of t2] by (simp add: fractionAt_before)
    next
      case 2
      then have "fractionAt m a e wk sl t1 \<le> m"
        using morning_band [OF pos(1), of wk t1 sl a e] le 4 by simp
      moreover have "m \<le> fractionAt m a e wk sl t2"
        using afternoon_band [OF pos(2) 4, of m e] by simp
      ultimately show ?thesis by linarith
    next
      case 3
      then have t1: "wk < t1" "t1 < sl" "tMorningEnd wk sl < t1" "t1 \<le> tAfternoonEnd wk sl"
        using le 4 tMorningEnd_ge [of wk sl] by simp_all
      have "real_of_int (t1 - tMorningEnd wk sl)
              / real_of_int (tAfternoonEnd wk sl - tMorningEnd wk sl)
          \<le> real_of_int (t2 - tMorningEnd wk sl)
              / real_of_int (tAfternoonEnd wk sl - tMorningEnd wk sl)"
        using le t1 by (intro ratio_mono) simp_all
      then have "real_of_int (t1 - tMorningEnd wk sl)
              / real_of_int (tAfternoonEnd wk sl - tMorningEnd wk sl) * a
          \<le> real_of_int (t2 - tMorningEnd wk sl)
              / real_of_int (tAfternoonEnd wk sl - tMorningEnd wk sl) * a"
        using pos(2) by (rule mult_right_mono)
      then show ?thesis
        by (simp only: fractionAt_afternoon [OF t1] fractionAt_afternoon [OF 4] add_le_cancel_left)
    qed
  next
    case 5
    consider "t1 \<le> wk" | "wk < t1" "t1 \<le> tMorningEnd wk sl"
      | "wk < t1" "tMorningEnd wk sl < t1" "t1 \<le> tAfternoonEnd wk sl"
      | "wk < t1" "tMorningEnd wk sl < t1" "tAfternoonEnd wk sl < t1"
      by linarith
    then show ?thesis
    proof cases
      case 1
      then show ?thesis using rng [of t2] by (simp add: fractionAt_before)
    next
      case 2
      then have "fractionAt m a e wk sl t1 \<le> m"
        using morning_band [OF pos(1), of wk t1 sl a e] le 5 by simp
      moreover have "m + a \<le> fractionAt m a e wk sl t2"
        using evening_band [OF pos(3) 5, of m a] by simp
      ultimately show ?thesis using pos by linarith
    next
      case 3
      then have "fractionAt m a e wk sl t1 \<le> m + a"
        using afternoon_band [OF pos(2), of wk t1 sl m e] le 5 by simp
      moreover have "m + a \<le> fractionAt m a e wk sl t2"
        using evening_band [OF pos(3) 5, of m a] by simp
      ultimately show ?thesis by linarith
    next
      case 4
      then have t1: "wk < t1" "t1 < sl" "tMorningEnd wk sl < t1" "tAfternoonEnd wk sl < t1"
        using le 5 by simp_all
      have "real_of_int (t1 - tAfternoonEnd wk sl) / real_of_int (sl - tAfternoonEnd wk sl)
          \<le> real_of_int (t2 - tAfternoonEnd wk sl) / real_of_int (sl - tAfternoonEnd wk sl)"
        using le t1 5 by (intro ratio_mono) simp_all
      then have "real_of_int (t1 - tAfternoonEnd wk sl) / real_of_int (sl - tAfternoonEnd wk sl) * e
          \<le> real_of_int (t2 - tAfternoonEnd wk sl) / real_of_int (sl - tAfternoonEnd wk sl) * e"
        using pos(3) by (rule mult_right_mono)
      then show ?thesis
        by (simp only: fractionAt_evening [OF t1] fractionAt_evening [OF 5] add_le_cancel_left)
    qed
  qed
qed

lemma day_parts: "0 \<le> morningOf a \<and> 0 \<le> afternoonOf a \<and> 0 \<le> eveningOf a
  \<and> morningOf a + afternoonOf a + eveningOf a = 1"
  by (simp add: morningOf_def afternoonOf_def eveningOf_def)

lemma computeSchedule_range: "0 \<le> computeSchedule c t \<and> computeSchedule c t \<le> 1"
  unfolding computeSchedule_def using day_parts [of "activity_level c"]
  by (intro fractionAt_range) simp_all

lemma computeSchedule_mono: "t1 \<le> t2 \<Longrightarrow> computeSchedule c t1 \<le> computeSchedule c t2"
  unfolding computeSchedule_def using day_parts [of "activity_level c"]
  by (intro fractionAt_mono) simp_all

lemma fallbackFrac_range: "0 \<le> fallbackFrac wk sl t \<and> fallbackFrac wk sl t \<le> 1"
  unfolding fallbackFrac_def by (intro fractionAt_range) simp_all

lemma fallbackFrac_mono: "t1 \<le> t2 \<Longrightarrow> fallbackFrac wk sl t1 \<le> fallbackFrac wk sl t2"
  unfolding fallbackFrac_def by (intro fractionAt_mono) simp_all

lemma timeClip_near: "\<bar>real_of_int (timeClip x) - x\<bar> < 1"
  unfolding timeClip_def by (cases "x < 0") (simp_all, linarith+)

lemma fractionAt_inverted:
  "sl \<le> wk \<Longrightarrow> fractionAt m a e wk sl now = (if now \<le> wk then 0 else 1)"
  by (simp add: fractionAt_def)

text \<open>
  Claim C3, as stated, for every normalised profile: the fraction is 0 at or before
  wake and 1 at or after sleep. A profile whose wake time is not before its sleep time
  is normalised like any other (wake 23:00, sleep 07:00), and there the test
  \<^verbatim>\<open>now <= wake\<close> comes first: at noon, which is after sleep, the fraction is 0.
\<close>

theorem pacing_curve_counterexample:
  "sleep night_ctx \<le> 43200000 \<and> computeSchedule night_ctx 43200000 = 0"
  by (simp add: night_ctx_def night_profile_def no_profile_def contextOf_def
      parseHM_1_def isDigit_def digitVal_def setHours_def computeSchedule_def fractionAt_def)

text \<open>
  Claim C3, amended. For every normalised profile, with \<open>F\<close> the fraction, \<open>tM\<close> and \<open>tA\<close>
  the two breakpoints and \<open>m\<close>, \<open>a\<close>, \<open>e\<close> the morning, afternoon and evening shares of
  the activity level:
  \<^item> \<open>F t = 0\<close> for every \<open>t\<close> at or before wake, and \<open>0 \<le> F t \<le> 1\<close> for every \<open>t\<close>;
  \<^item> \<open>F\<close> is non-decreasing for any two ordered timestamps;
  \<^item> when wake is before sleep, \<open>F t = 1\<close> for every \<open>t\<close> at or after sleep, the
    breakpoints lie in order between wake and sleep, and each is less than one
    millisecond away from 33% and 80% of the wake-to-sleep duration after wake;
  \<^item> between wake and sleep \<open>F\<close> is linear on each of the three pieces: from 0 at wake
    to \<open>m\<close> at \<open>tM\<close>, from \<open>m\<close> at \<open>tM\<close> to \<open>m + a\<close> at \<open>tA\<close>, and from \<open>m + a\<close> at \<open>tA\<close>
    to \<open>m + a + e = 1\<close> at sleep;
  \<^item> when wake is not before sleep, \<open>F t\<close> is 0 for every \<open>t\<close> at or before wake and 1 for
    every later \<open>t\<close>.
  The same holds for the fixed 35/45/20 curve of the fallback plan.
\<close>

theorem pacing_curve:
  fixes c :: ctx
  defines "wk \<equiv> wake c" and "sl \<equiv> sleep c"
  defines "tM \<equiv> tMorningEnd (wake c) (sleep c)" and "tA \<equiv> tAfternoonEnd (wake c) (sleep c)"
  defines "m \<equiv> morningOf (activity_level c)" and "a \<equiv> afternoonOf (activity_level c)"
    and "e \<equiv> eveningOf (activity_level c)"
  shows "(\<forall>t. t \<le> wk \<longrightarrow> computeSchedule c t = 0)
    \<and> (\<forall>t. 0 \<le> computeSchedule c t \<and> computeSchedule c t \<le> 1)
    \<and> (\<forall>t1 t2. t1 \<le> t2 \<longrightarrow> computeSchedule c t1 \<le> computeSchedule c t2)
    \<and> (wk < sl \<longrightarrow> (\<forall>t. sl \<le> t \<longrightarrow> computeSchedule c t = 1))
    \<and> (wk < sl \<longrightarrow> wk \<le> tM \<and> tM \<le> tA \<and> tA \<le> sl)
    \<and> (wk < sl \<longrightarrow> \<bar>real_of_int tM - (real_of_int wk + 33 / 100 * real_of_int (sl - wk))\<bar> < 1
          \<and> \<bar>real_of_int tA - (real_of_int wk + 80 / 100 * real_of_int (sl - wk))\<bar> < 1)
    \<and> (\<forall>t. wk < t \<and> t < sl \<and> t \<le> tM \<longrightarrow>
          computeSchedule c t = real_of_int (t - wk) / real_of_int (tM - wk) * m)
    \<and> (\<forall>t. t < sl \<and> tM < t \<and> t \<le> tA \<longrightarrow>
          computeSchedule c t = m + real_of_int (t - tM) / real_of_int (tA - tM) * a)
    \<and> (\<forall>t. t < sl \<and> tA < t \<longrightarrow>
          computeSchedule c t = m + a + real_of_int (t - tA) / real_of_int (sl - tA) * e)
    \<and> m + a + e = 1
    \<and> (sl \<le> wk \<longrightarrow> (\<forall>t. computeSchedule c t = (if t \<le> wk then 0 else 1)))
    \<and> (\<forall>t. t \<le> wk \<longrightarrow> fallbackFrac wk sl t = 0)
    \<and> (\<forall>t. 0 \<le> fallbackFrac wk sl t \<and> fallbackFrac wk sl t \<le> 1)
    \<and> (\<forall>t1 t2. t1 \<le> t2 \<longrightarrow> fallbackFrac wk sl t1 \<le> fallbackFrac wk sl t2)
    \<and> (wk < sl \<longrightarrow> (\<forall>t. sl \<le> t \<longrightarrow> fallbackFrac wk sl t = 1))
    \<and> (\<forall>t. wk < t \<and> t < sl \<and> t \<le> tM \<longrightarrow>
          fallbackFrac wk sl t = real_of_int (t - wk) / real_of_int (tM - wk) * (35 / 100))
    \<and> (\<forall>t. t < sl \<and> tM < t \<and> t \<le> tA \<longrightarrow>
          fallbackFrac wk sl t
            = 35 / 100 + real_of_int (t - tM) / real_of_int (tA - tM) * (45 / 100))
    \<and> (\<forall>t. t < sl \<and> tA < t \<longrightarrow>
          fallbackFrac wk sl t
            = 35 / 100 + 45 / 100 + real_of_int (t - tA) / real_of_int (sl - tA) * (20 / 100))
    \<and> (sl \<le> wk \<longrightarrow> (\<forall>t. fallbackFrac wk sl t = (if t \<le> wk then 0 else 1)))"
proof -
  note defs = wk_def sl_def tM_def tA_def m_def a_def e_def
  have wM: "wk \<le> tM" and MA: "tM \<le> tA"
    unfolding defs by (rule tMorningEnd_ge, rule tMorningEnd_le_tAfternoonEnd)
  have c1: "\<forall>t. t \<le> wk \<longrightarrow> computeSchedule c t = 0"
    unfolding defs by (simp add: computeSchedule_def fractionAt_before)
  have c2: "\<forall>t. 0 \<le> computeSchedule c t \<and> computeSchedule c t \<le> 1"
    using computeSchedule_range by blast
  have c3: "\<forall>t1 t2. t1 \<le> t2 \<longrightarrow> computeSchedule c t1 \<le> computeSchedule c t2"
    using computeSchedule_mono by blast
  have c4: "wk < sl \<longrightarrow> (\<forall>t. sl \<le> t \<longrightarrow> computeSchedule c t = 1)"
    unfolding defs by (simp add: computeSchedule_def fractionAt_after)
  have c5: "wk < sl \<longrightarrow> wk \<le> tM \<and> tM \<le> tA \<and> tA \<le> sl"
    using wM MA tAfternoonEnd_le [of wk sl] unfolding defs by simp
  have c6: "wk < sl \<longrightarrow>
      \<bar>real_of_int tM - (real_of_int wk + 33 / 100 * real_of_int (sl - wk))\<bar> < 1
      \<and> \<bar>real_of_int tA - (real_of_int wk + 80 / 100 * real_of_int (sl - wk))\<bar> < 1"
  proof
    assume lt: "wk < sl"
    then have d: "max 1 (sl - wk) = sl - wk"
      by simp
    from timeClip_near [of "real_of_int wk + real_of_int (sl - wk) * (33 / 100)"]
      timeClip_near [of "real_of_int wk + real_of_int (sl - wk) * (80 / 100)"]
    show "\<bar>real_of_int tM - (real_of_int wk + 33 / 100 * real_of_int (sl - wk))\<bar> < 1
      \<and> \<bar>real_of_int tA - (real_of_int wk + 80 / 100 * real_of_int (sl - wk))\<bar> < 1"
      unfolding tM_def tA_def tMorningEnd_def tAfternoonEnd_def
      unfolding wk_def [symmetric] sl_def [symmetric] d
      by (simp add: mult.commute)
  qed
  have c7: "\<forall>t. wk < t \<and> t < sl \<and> t \<le> tM \<longrightarrow>
      computeSchedule c t = real_of_int (t - wk) / real_of_int (tM - wk) * m"
    unfolding defs by (simp add: computeSchedule_def fractionAt_morning)
  have c8: "\<forall>t. t < sl \<and> tM < t \<and> t \<le> tA \<longrightarrow>
      computeSchedule c t = m + real_of_int (t - tM) / real_of_int (tA - tM) * a"
    using wM unfolding defs by (simp add: computeSchedule_def fractionAt_afternoon)
  have c9: "\<forall>t. t < sl \<and> tA < t \<longrightarrow>
      computeSchedule c t = m + a + real_of_int (t - tA) / real_of_int (sl - tA) * e"
    using wM MA unfolding defs by (simp add: computeSchedule_def fractionAt_evening)
  have c10: "m + a + e = 1"
    unfolding defs by (simp add: eveningOf_def)
  have c11: "sl \<le> wk \<longrightarrow> (\<forall>t. computeSchedule c t = (if t \<le> wk then 0 else 1))"
    unfolding defs by (simp add: computeSchedule_def fractionAt_inverted)
  have f1: "\<forall>t. t \<le> wk \<longrightarrow> fallbackFrac wk sl t = 0"
    by (simp add: fallbackFrac_def fractionAt_before)
  have f2: "\<forall>t. 0 \<le> fallbackFrac wk sl t \<and> fallbackFrac wk sl t \<le> 1"
    using fallbackFrac_range by blast
  have f3: "\<forall>t1 t2. t1 \<le> t2 \<longrightarrow> fallbackFrac wk sl t1 \<le> fallbackFrac wk sl t2"
    using fallbackFrac_mono by blast
  have f4: "wk < sl \<longrightarrow> (\<forall>t. sl \<le> t \<longrightarrow> fallbackFrac wk sl t = 1)"
    by (simp add: fallbackFrac_def fractionAt_after)
  have f7: "\<forall>t. wk < t \<and> t < sl \<and> t \<le> tM \<longrightarrow>
      fallbackFrac wk sl t = real_of_int (t - wk) / real_of_int (tM - wk) * (35 / 100)"
    unfolding tM_def wk_def [symmetric] sl_def [symmetric]
    by (simp add: fallbackFrac_def fractionAt_morning)
  have f8: "\<forall>t. t < sl \<and> tM < t \<and> t \<le> tA \<longrightarrow>
      fallbackFrac wk sl t
        = 35 / 100 + real_of_int (t - tM) / real_of_int (tA - tM) * (45 / 100)"
    using wM unfolding tM_def tA_def wk_def [symmetric] sl_def [symmetric]
    by (simp add: fallbackFrac_def fractionAt_afternoon)
  have f9: "\<forall>t. t < sl \<and> tA < t \<longrightarrow>
      fallbackFrac wk sl t
        = 35 / 100 + 45 / 100 + real_of_int (t - tA) / real_of_int (sl - tA) * (20 / 100)"
    using wM MA unfolding tM_def tA_def wk_def [symmetric] sl_def [symmetric]
    by (simp add: fallbackFrac_def fractionAt_evening)
  have f11: "sl \<le> wk \<longrightarrow> (\<forall>t. fallbackFrac wk sl t = (if t \<le> wk then 0 else 1))"
    by (simp add: fallbackFrac_def fractionAt_inverted)
  show ?thesis
    by (intro conjI) (fact c1 c2 c3 c4 c5 c6 c7 c8 c9 c10 c11 f1 f2 f3 f4 f7 f8 f9 f11)+
qed

text \<open>
  The day profile (Moderate, wake 07:00, sleep 23:00): 0 at wake, 1 at sleep, the first
  breakpoint at 12:16:48, the fraction at noon on the morning line and at most the
  fraction at 13:53:20. The night-shift profile: 1 at 23:53:20, after its wake time.
\<close>

theorem pacing_curve_witness:
  "wake day_ctx < sleep day_ctx
   \<and> computeSchedule day_ctx 25200000 = 0
   \<and> computeSchedule day_ctx 82800000 = 1
   \<and> computeSchedule day_ctx 43200000 \<le> computeSchedule day_ctx 50000000
   \<and> tMorningEnd (wake day_ctx) (sleep day_ctx) = 44208000
   \<and> computeSchedule day_ctx 43200000 = 25 / 88
   \<and> fallbackFrac 25200000 82800000 82800000 = 1
   \<and> sleep night_ctx \<le> wake night_ctx
   \<and> computeSchedule night_ctx 86000000 = 1"
proof -
  have h: "wake day_ctx < sleep day_ctx"
    by (simp add: day_ctx_def plain_ctx_def)
  have w: "wake day_ctx = 25200000" and s: "sleep day_ctx = 82800000"
    and l: "activity_level day_ctx = ''Moderate''"
    by (simp_all add: day_ctx_def plain_ctx_def)
  have tm: "tMorningEnd 25200000 82800000 = 44208000"
    by (simp add: tMorningEnd_def timeClip_def)
  have n: "wake night_ctx = 82800000" "sleep night_ctx = 25200000"
    by (simp_all add: night_ctx_def night_profile_def no_profile_def contextOf_def
        parseHM_1_def isDigit_def digitVal_def setHours_def)
  note day = pacing_curve [of day_ctx, unfolded w s l tm]
  note night = pacing_curve [of night_ctx, unfolded n]
  have d1: "\<forall>t. t \<le> 25200000 \<longrightarrow> computeSchedule day_ctx t = 0"
    using day by (elim conjE)
  have d3: "\<forall>t1 t2. t1 \<le> t2 \<longrightarrow> computeSchedule day_ctx t1 \<le> computeSchedule day_ctx t2"
    using day by (elim conjE)
  have d4: "(25200000 :: int) < 82800000 \<longrightarrow> (\<forall>t. 82800000 \<le> t \<longrightarrow> computeSchedule day_ctx t = 1)"
    using day by (elim conjE)
  have d7: "\<forall>t. 25200000 < t \<and> t < 82800000 \<and> t \<le> 44208000 \<longrightarrow>
      computeSchedule day_ctx t
        = real_of_int (t - 25200000) / real_of_int (44208000 - 25200000) * morningOf ''Moderate''"
    using day by (elim conjE)
  have f4: "(25200000 :: int) < 82800000 \<longrightarrow> (\<forall>t. 82800000 \<le> t \<longrightarrow> fallbackFrac 25200000 82800000 t = 1)"
    using day by (elim conjE)
  have n11: "(25200000 :: int) \<le> 82800000 \<longrightarrow>
      (\<forall>t. computeSchedule night_ctx t = (if t \<le> 82800000 then 0 else 1))"
    using night by (elim conjE)
  have "(25200000 :: int) < 43200000 \<and> (43200000 :: int) < 82800000
      \<and> (43200000 :: int) \<le> 44208000"
    by simp
  with d7 have "computeSchedule day_ctx 43200000
      = real_of_int (43200000 - 25200000) / real_of_int (44208000 - 25200000)
        * morningOf ''Moderate''"
    by blast
  then have noon: "computeSchedule day_ctx 43200000 = 25 / 88"
    by (simp add: morningOf_def)
  from h w s tm d1 d3 d4 f4 n n11 noon show ?thesis
    by simp
qed

section \<open>The handlers, stage by stage\<close>

lemma passes_decision_Num: "passes_decision (Num g) (Num t) ml pct = spec_notify g t ml pct"
  by (auto simp add: passes_decision_def spec_notify_def)

lemma sip_of_Num: "sip_of a (Num t) ml = Num (spec_sip a t ml)"
  by (simp add: sip_of_def spec_sip_def spec_sip_bounds_def sipMin_def sipMax_def
      js_clamp_def clamp_def)


text \<open>
  For a well-formed request each handler is a cascade of the quiet-hours gate, the
  cooldown gate and the decision, in that order; variant 1 builds the context in
  between, which fails on a \<^verbatim>\<open>null\<close> profile.
\<close>

lemma handler_1_valid:
  assumes "well_formed w req" "body req = Some b" "b_ml b = Some ml" "b_pct b = Some pct"
    and "b_profile b \<noteq> NullProfile"
  shows "handler_1 w st req =
    (if spec_quiet 23 7 (local_hour w) then (Skipped quiet_hours, [], st)
     else if spec_cooldown 30 (clock_rate w) (last_of st (recipient w)) then (Skipped interval, [], st)
     else if \<not> passes_decision (goal_of_1 w b) (target_of_1 w b) ml pct
       then (Skipped on_track_or_done, [], st)
     else send_and_record w st (recipient w)
       (Notified (goal_of_1 w b) (target_of_1 w b)
          (sip_of (activity_level (ctx_of_1 w b)) (target_of_1 w b) ml)))"
proof -
  have c: "computeContext (w_tz w) (clock_sleep w) (b_profile b) (w_now w)
      = Some (ctx_of_1 w b, now_of_1 w b)"
    using assms(5) by (cases "b_profile b") (simp_all add: computeContext_def ctx_of_1_def now_of_1_def)
  show ?thesis
    using assms(1-4)
    by (auto simp add: handler_1_def c well_formed_def spec_quiet_def local_hour_def
        spec_cooldown_def recipient_def passes_decision_def goal_of_1_def target_of_1_def
        sip_of_def Let_def)
qed

lemma handler_1_null:
  assumes "well_formed w req" "body req = Some b" "b_profile b = NullProfile"
  shows "handler_1 w st req =
    (if spec_quiet 23 7 (local_hour w) then (Skipped quiet_hours, [], st)
     else (Status500_server_error, [], st))"
  using assms
  by (auto simp add: handler_1_def well_formed_def spec_quiet_def local_hour_def
      computeContext_def Let_def)

lemma handler_2_valid:
  assumes "well_formed w req" "body req = Some b" "b_ml b = Some ml" "b_pct b = Some pct"
  shows "handler_2 w st req =
    (if spec_quiet (quiet_start_of w) (quiet_end_of w) (local_hour w) then (Skipped quiet_hours, [], st)
     else if spec_cooldown (min_interval_of w) (clock_rate w) (last_of st (recipient w))
       then (Skipped interval, [], st)
     else if \<not> passes_decision (goal_of_2 w) (target_of_2 w) ml pct
       then (Skipped on_track_or_done, [], st)
     else send_and_record w st (recipient w)
       (Notified (goal_of_2 w) (target_of_2 w)
          (sip_of (ACTIVITY_LEVEL (getConfig_2 (w_vars w))) (target_of_2 w) ml)))"
  using assms
  by (auto simp add: handler_2_def well_formed_def spec_quiet_def local_hour_def
      spec_cooldown_def recipient_def passes_decision_def goal_of_2_def target_of_2_def
      sip_of_def quiet_start_of_def quiet_end_of_def min_interval_of_def getConfig_2_def
      Let_def split_def)

lemma handler_ai_valid:
  assumes "well_formed w req" "body req = Some b" "b_ml b = Some ml" "b_pct b = Some pct"
  shows "handler_ai why ws ss w st req =
    (if spec_quiet (quiet_start_of w) (quiet_end_of w) (local_hour w) then (Skipped quiet_hours, [], st)
     else if spec_cooldown (min_interval_of w) (clock_rate w) (last_of st (recipient w))
       then (Skipped interval, [], st)
     else
       let p = choosePlan w (getConfig_3 (w_vars w)) why (ws (getConfig_3 (w_vars w)))
                 (ss (getConfig_3 (w_vars w))) ml pct
       in if \<not> passes_plan p ml
         then (Skipped on_track_or_done, [], st)
         else send_and_record w st (recipient w)
            (Notified (goal_ml p) (target_ml_now p) (next_sip_ml p)))"
  using assms
  by (auto simp add: handler_ai_def well_formed_def spec_quiet_def local_hour_def
      spec_cooldown_def recipient_def passes_plan_def
      quiet_start_of_def quiet_end_of_def min_interval_of_def getConfig_3_def
      Let_def split_def)

lemma handler_1_invalid:
  "\<not> well_formed w req \<Longrightarrow>
   handler_1 w st req \<in> {(Status405, [], st), (Status400, [], st), (Status500_config, [], st),
     (Status500_server_error, [], st)}"
  by (auto simp add: handler_1_def well_formed_def Let_def split: option.splits)

lemma handler_2_invalid:
  "\<not> well_formed w req \<Longrightarrow>
   handler_2 w st req \<in> {(Status405, [], st), (Status400, [], st), (Status500_config, [], st),
     (Status500_server_error, [], st)}"
  by (auto simp add: handler_2_def well_formed_def getConfig_2_def Let_def split: option.splits)

lemma handler_ai_invalid:
  "\<not> well_formed w req \<Longrightarrow>
   handler_ai why ws ss w st req \<in> {(Status405, [], st), (Status400, [], st), (Status500_config, [], st),
     (Status500_server_error, [], st)}"
  by (auto simp add: handler_ai_def well_formed_def getConfig_3_def Let_def split: option.splits)

lemma world_at_sel:
  "w_vars (world_at t) = base_env" "w_tz (world_at t) = 0" "w_now (world_at t) = t"
  "clock_wake (world_at t) = t" "clock_sleep (world_at t) = t" "clock_dow (world_at t) = t"
  "clock_rate (world_at t) = t" "clock_set (world_at t) = t" "send_ok (world_at t)"
  "w_ai (world_at t) = FetchError"
  by (simp_all add: world_at_def)



lemma response_send_and_record:
  "response_of (send_and_record w st chat r) = (if send_ok w then r else Status500_server_error)"
  by (simp add: response_of_def send_and_record_def)

lemma spec_notify_done: "\<not> spec_notify g t g pct"
  by (simp add: spec_notify_def)

section \<open>Gates and outcomes, for all four variants\<close>

lemma outcome_sel:
  "response_of (r, e, s) = r" "effects_of (r, e, s) = e" "state_of (r, e, s) = s"
  by (simp_all add: response_of_def effects_of_def state_of_def)

lemma well_formed_body:
  assumes "well_formed w req"
  obtains b ml pct where "body req = Some b" "b_ml b = Some ml" "b_pct b = Some pct"
  using assms by (auto simp: well_formed_def split: option.splits)

lemma handler_gates:
  assumes "well_formed w req"
  obtains
    (quiet) "spec_quiet (quiet_start v w) (quiet_end v w) (local_hour w)"
      "handler v w st req = (Skipped quiet_hours, [], st)"
  | (cooldown) "\<not> spec_quiet (quiet_start v w) (quiet_end v w) (local_hour w)"
      "spec_cooldown (min_interval v w) (clock_rate w) (last_of st (recipient w))"
      "handler v w st req = (Skipped interval, [], st)"
  | (skip) "\<not> spec_quiet (quiet_start v w) (quiet_end v w) (local_hour w)"
      "\<not> spec_cooldown (min_interval v w) (clock_rate w) (last_of st (recipient w))"
      "handler v w st req = (Skipped on_track_or_done, [], st)"
  | (send) g t s where "\<not> spec_quiet (quiet_start v w) (quiet_end v w) (local_hour w)"
      "\<not> spec_cooldown (min_interval v w) (clock_rate w) (last_of st (recipient w))"
      "handler v w st req = send_and_record w st (recipient w) (Notified g t s)"
  | (thrown) "v = Variant1" "null_profile req"
      "\<not> spec_quiet (quiet_start v w) (quiet_end v w) (local_hour w)"
      "handler v w st req = (Status500_server_error, [], st)"
proof -
  from assms obtain b ml pct where b: "body req = Some b" "b_ml b = Some ml" "b_pct b = Some pct"
    by (rule well_formed_body)
  show ?thesis
  proof (cases v)
    case Variant1
    show ?thesis
    proof (cases "b_profile b = NullProfile")
      case True
      then have "null_profile req"
        by (simp add: null_profile_def b)
      with Variant1 handler_1_null [OF assms b(1) True, of st] quiet thrown show ?thesis
        by (simp split: if_splits)
    next
      case False
      with Variant1 handler_1_valid [OF assms b False, of st] quiet cooldown skip send
      show ?thesis
        by (simp split: if_splits)
    qed
  next
    case Variant2
    with handler_2_valid [OF assms b, of st] quiet cooldown skip send show ?thesis
      by (simp split: if_splits)
  next
    case Variant3
    with handler_ai_valid [OF assms b, of "''fallback''" "\<lambda>cfg. ''07:00''" "\<lambda>cfg. ''23:00''" st]
      quiet cooldown skip send show ?thesis
      by (simp add: handler_3_def Let_def split: if_splits)
  next
    case Variant4
    with handler_ai_valid [OF assms b, of "''fallback schedule''" WAKE_TIME SLEEP_TIME st]
      quiet cooldown skip send show ?thesis
      by (simp add: handler_4_def Let_def split: if_splits)
  qed
qed

lemma handler_invalid:
  assumes "\<not> well_formed w req"
  shows "handler v w st req \<in> {(Status405, [], st), (Status400, [], st),
     (Status500_config, [], st), (Status500_server_error, [], st)}"
proof (cases v)
  case Variant1
  with handler_1_invalid [OF assms, of st] show ?thesis by simp
next
  case Variant2
  with handler_2_invalid [OF assms, of st] show ?thesis by simp
next
  case Variant3
  with handler_ai_invalid [OF assms, of "''fallback''" "\<lambda>cfg. ''07:00''" "\<lambda>cfg. ''23:00''" st]
  show ?thesis by (simp add: handler_3_def)
next
  case Variant4
  with handler_ai_invalid [OF assms, of "''fallback schedule''" WAKE_TIME SLEEP_TIME st]
  show ?thesis by (simp add: handler_4_def)
qed

lemma response_send_and_record_neq:
  "response_of (send_and_record w st chat (Notified g t s)) \<noteq> Skipped r"
  by (simp add: response_send_and_record)

section \<open>Quiet hours\<close>

text \<open>
  Claim C4, amended: for every well-formed request (a POST whose body parses and holds
  \<open>ml\<close> and \<open>pct\<close>, with both credentials configured), each handler answers skipped
  "quiet_hours" if and only if the local hour satisfies
  \<open>hour >= quiet_start_hour OR hour < quiet_end_hour\<close> (23 and 7 by default, and always in
  variant 1); the check comes before the cooldown: in quiet hours the answer is
  "quiet_hours" and nothing else happens, whatever the notification state holds.
\<close>

theorem quiet_hours_gate:
  assumes "well_formed w req"
  shows "(response_of (handler v w st req) = Skipped quiet_hours)
       = spec_quiet (quiet_start v w) (quiet_end v w) (local_hour w)
    \<and> (spec_quiet (quiet_start v w) (quiet_end v w) (local_hour w) \<longrightarrow>
         handler v w st req = (Skipped quiet_hours, [], st))
    \<and> (env_QUIET_START_HOUR (w_vars w) = None \<longrightarrow> quiet_start v w = 23)
    \<and> (env_QUIET_END_HOUR (w_vars w) = None \<longrightarrow> quiet_end v w = 7)"
proof -
  have defaults: "(env_QUIET_START_HOUR (w_vars w) = None \<longrightarrow> quiet_start v w = 23)
    \<and> (env_QUIET_END_HOUR (w_vars w) = None \<longrightarrow> quiet_end v w = 7)"
    by (cases v) (simp_all add: quiet_start_of_def quiet_end_of_def Number_env_def)
  from assms have "(response_of (handler v w st req) = Skipped quiet_hours)
       = spec_quiet (quiet_start v w) (quiet_end v w) (local_hour w)
    \<and> (spec_quiet (quiet_start v w) (quiet_end v w) (local_hour w) \<longrightarrow>
         handler v w st req = (Skipped quiet_hours, [], st))"
    by (cases rule: handler_gates [of w req v st])
      (simp_all add: outcome_sel response_send_and_record_neq)
  with defaults show ?thesis
    by blast
qed


lemma handler_outcomes:
  obtains
    (silent) r where "\<not> is_Notified r" "handler v w st req = (r, [], st)"
  | (failed) "\<not> send_ok w"
      "handler v w st req = (Status500_server_error, [Send (recipient w)], st)"
  | (notified) g t s where "send_ok w"
      "handler v w st req = (Notified g t s,
         [Send (recipient w), SetLastNotified (recipient w) (clock_set w)],
         st(recipient w \<mapsto> clock_set w))"
proof (cases "well_formed w req")
  case False
  from handler_invalid [OF this, of v st] silent show ?thesis
    by auto
next
  case True
  then show ?thesis
  proof (cases rule: handler_gates [of w req v st])
    case quiet
    with silent [of "Skipped quiet_hours"] show ?thesis by simp
  next
    case cooldown
    with silent [of "Skipped interval"] show ?thesis by simp
  next
    case skip
    with silent [of "Skipped on_track_or_done"] show ?thesis by simp
  next
    case (send g t s)
    with failed notified show ?thesis
      by (cases "send_ok w") (simp_all add: send_and_record_def)
  next
    case thrown
    with silent [of Status500_server_error] show ?thesis by simp
  qed
qed

text \<open>
  Claim C4, as stated for every request: a GET at 23:00 is answered 405, not skipped
  "quiet_hours"; the method, the body and the credentials are checked first.
\<close>

theorem quiet_hours_gate_counterexample:
  "spec_quiet 23 7 (local_hour (world_at (at_time 23 0)))
   \<and> response_of (handler_1 (world_at (at_time 23 0)) Map.empty get_request) = Status405"
  by (simp add: spec_quiet_def local_hour_def world_at_sel at_time_def getHours_def
      handler_1_def get_request_def response_of_def)

lemma local_hour_at:
  "local_hour (world_at (at_time 23 0)) = 23" "local_hour (world_at (at_time 6 0)) = 6"
  "local_hour (world_at (at_time 7 0)) = 7" "local_hour (world_at (at_time 22 0)) = 22"
  "local_hour (world_at (at_time 12 0)) = 12" "local_hour (world_at (at_time 12 1)) = 12"
  "local_hour (world_at (at_time 15 0)) = 15"
  by (simp_all add: local_hour_def world_at_sel at_time_def getHours_def)

lemma well_formed_post: "well_formed (world_at t) (post (reading_of ml pct))"
  by (simp add: well_formed_def world_at_sel base_env_def post_def reading_of_def truthy_str_def)

lemma base_bounds:
  "quiet_start v (world_at t) = 23" "quiet_end v (world_at t) = 7"
  "min_interval v (world_at t) = 30"
  by (cases v; simp add: quiet_start_of_def quiet_end_of_def min_interval_of_def world_at_sel
      base_env_def Number_env_def)+

text \<open>Hours 23 and 6 skip with "quiet_hours"; hours 7 and 22 proceed.\<close>

theorem quiet_hours_gate_witness:
  "well_formed (world_at (at_time 23 0)) (post (reading_of 0 30))
   \<and> response_of (handler Variant1 (world_at (at_time 23 0)) Map.empty (post (reading_of 0 30)))
       = Skipped quiet_hours
   \<and> response_of (handler Variant2 (world_at (at_time 6 0)) Map.empty (post (reading_of 0 30)))
       = Skipped quiet_hours
   \<and> response_of (handler Variant3 (world_at (at_time 7 0)) Map.empty (post (reading_of 0 30)))
       \<noteq> Skipped quiet_hours
   \<and> response_of (handler Variant4 (world_at (at_time 22 0)) Map.empty (post (reading_of 0 30)))
       \<noteq> Skipped quiet_hours"
  using
    quiet_hours_gate [where v = Variant1 and st = Map.empty
      and w = "world_at (at_time 23 0)" and req = "post (reading_of 0 30)"]
    quiet_hours_gate [where v = Variant2 and st = Map.empty
      and w = "world_at (at_time 6 0)" and req = "post (reading_of 0 30)"]
    quiet_hours_gate [where v = Variant3 and st = Map.empty
      and w = "world_at (at_time 7 0)" and req = "post (reading_of 0 30)"]
    quiet_hours_gate [where v = Variant4 and st = Map.empty
      and w = "world_at (at_time 22 0)" and req = "post (reading_of 0 30)"]
  by (simp add: well_formed_post base_bounds local_hour_at spec_quiet_def outcome_sel)


section \<open>Cooldown\<close>



lemma recipient_at: "recipient (world_at t) = ''chat''"
  by (simp add: recipient_def world_at_sel base_env_def chat_of_def)

lemma goal_of_2_at: "goal_of_2 (world_at t) = Num 3250"
  by (simp add: goal_of_2_def getConfig_2_def world_at_sel base_env_def Number_env_def
      str_or_def computeGoalMl_2_def Math_round_def addPer_def js_clamp_def)

lemma body_post:
  "body (post b) = Some b" "b_ml (reading_of ml pct) = Some ml" "b_pct (reading_of ml pct) = Some pct"
  "b_profile (reading_of ml pct) = NoProfile"
  by (simp_all add: post_def reading_of_def)

text \<open>With a numeric goal the decision is settled by a low level or by a reached goal.\<close>

lemma passes_low: "pct < 40 \<Longrightarrow> ml < g \<Longrightarrow> passes_decision (Num g) t ml pct"
  by (simp add: passes_decision_def)


lemma handler_2_at:
  "\<not> spec_quiet 23 7 (local_hour (world_at t)) \<Longrightarrow>
   handler_2 (world_at t) st (post (reading_of ml pct)) =
    (if spec_cooldown 30 t (last_of st ''chat'') then (Skipped interval, [], st)
     else if \<not> passes_decision (Num 3250) (target_of_2 (world_at t)) ml pct
       then (Skipped on_track_or_done, [], st)
     else (Notified (Num 3250) (target_of_2 (world_at t))
             (sip_of ''Moderate'' (target_of_2 (world_at t)) ml),
           [Send ''chat'', SetLastNotified ''chat'' t], st(''chat'' \<mapsto> t)))"
  using handler_2_valid [where w = "world_at t" and req = "post (reading_of ml pct)"
      and b = "reading_of ml pct" and ml = ml and pct = pct and st = st]
    well_formed_post [of t ml pct]
  by (simp add: body_post base_bounds [where v = Variant2, simplified] recipient_at goal_of_2_at world_at_sel send_and_record_def getConfig_2_def
      base_env_def str_or_def)



text \<open>
  Outside the amended claim, the model follows the source on a \<^verbatim>\<open>null\<close> profile: variant 1
  builds the context before the cooldown check, \<^verbatim>\<open>computeContext\<close> throws, and the answer
  is 500 also within the interval.
\<close>

lemma null_profile_thrown:
  "handler_1 (world_at (at_time 12 10)) [''chat'' \<mapsto> at_time 12 0] (post (null_reading 0 30))
     = (Status500_server_error, [], [''chat'' \<mapsto> at_time 12 0])
   \<and> spec_cooldown 30 (clock_rate (world_at (at_time 12 10)))
        (last_of [''chat'' \<mapsto> at_time 12 0] (recipient (world_at (at_time 12 10))))"
proof -
  let ?w = "world_at (at_time 12 10)" and ?b = "null_reading 0 30"
  have wf: "well_formed ?w (post ?b)"
    by (simp add: well_formed_def world_at_sel base_env_def post_def null_reading_def
        truthy_str_def)
  have b: "body (post ?b) = Some ?b" "b_profile ?b = NullProfile"
    by (simp_all add: post_def null_reading_def)
  have q: "\<not> spec_quiet 23 7 (local_hour ?w)"
    by (simp add: local_hour_def world_at_sel at_time_def getHours_def spec_quiet_def)
  have c: "spec_cooldown 30 (clock_rate ?w) (last_of [''chat'' \<mapsto> at_time 12 0] (recipient ?w))"
    by (simp add: spec_cooldown_def last_of_def recipient_at world_at_sel at_time_def)
  from q c show ?thesis
    unfolding handler_1_null [OF wf b] by simp
qed

section \<open>The notification state is written only after the send\<close>

text \<open>
  Claim C9: in each of the four variants the entry of the recipient is written only in
  an invocation that answers notified, and there the effects are the send followed by
  the write; every other outcome (405, 400, 500, any skipped response, also a send
  that fails) leaves the map unchanged and writes nothing; a change of the map implies
  that the send was issued.
\<close>

theorem state_written_after_send:
  "(is_Notified (response_of (handler v w st req)) \<longrightarrow>
      effects_of (handler v w st req)
        = [Send (recipient w), SetLastNotified (recipient w) (clock_set w)]
      \<and> state_of (handler v w st req) = st(recipient w \<mapsto> clock_set w))
   \<and> (\<not> is_Notified (response_of (handler v w st req)) \<longrightarrow>
      state_of (handler v w st req) = st
      \<and> (\<forall>c t. SetLastNotified c t \<notin> set (effects_of (handler v w st req))))
   \<and> (state_of (handler v w st req) \<noteq> st \<longrightarrow> sends (handler v w st req))"
  by (cases rule: handler_outcomes [of v w st req])
    (simp_all add: outcome_sel sends_def)


lemma offline_sel:
  "w_vars (offline_world_at t) = base_env" "w_tz (offline_world_at t) = 0"
  "w_now (offline_world_at t) = t" "clock_wake (offline_world_at t) = t"
  "clock_sleep (offline_world_at t) = t" "clock_rate (offline_world_at t) = t"
  "\<not> send_ok (offline_world_at t)"
  by (simp_all add: offline_world_at_def world_at_sel)

text \<open>
  At noon with a low reading: with the provider reachable the call notifies and records
  the instant; with the provider unreachable the send is issued, the answer is 500 and
  the map stays empty.
\<close>

theorem state_written_after_send_witness:
  "is_Notified (response_of (handler Variant2 (world_at (at_time 12 0)) Map.empty
      (post (reading_of 0 30))))
   \<and> effects_of (handler Variant2 (world_at (at_time 12 0)) Map.empty (post (reading_of 0 30)))
       = [Send ''chat'', SetLastNotified ''chat'' (at_time 12 0)]
   \<and> state_of (handler Variant2 (world_at (at_time 12 0)) Map.empty (post (reading_of 0 30)))
       = [''chat'' \<mapsto> at_time 12 0]
   \<and> \<not> is_Notified (response_of (handler Variant2 (offline_world_at (at_time 12 0)) Map.empty
      (post (reading_of 0 30))))
   \<and> sends (handler Variant2 (offline_world_at (at_time 12 0)) Map.empty (post (reading_of 0 30)))
   \<and> state_of (handler Variant2 (offline_world_at (at_time 12 0)) Map.empty
      (post (reading_of 0 30))) = Map.empty"
proof -
  let ?w = "world_at (at_time 12 0)" and ?o = "offline_world_at (at_time 12 0)"
  let ?req = "post (reading_of 0 30)"
  have q: "\<not> spec_quiet 23 7 (local_hour ?w)"
    by (simp add: local_hour_at spec_quiet_def)
  have ok: "is_Notified (response_of (handler Variant2 ?w Map.empty ?req))"
    unfolding handler.simps by (subst handler_2_at [OF q])
      (simp add: spec_cooldown_def last_of_def at_time_def passes_low outcome_sel)
  have wf: "well_formed ?o ?req"
    by (simp add: well_formed_def offline_sel base_env_def post_def reading_of_def truthy_str_def)
  have off: "handler Variant2 ?o Map.empty ?req = send_and_record ?o Map.empty ''chat''
      (Notified (goal_of_2 ?o) (target_of_2 ?o) (sip_of ''Moderate'' (target_of_2 ?o) 0))"
    unfolding handler.simps
    by (subst handler_2_valid [OF wf body_post(1-3)])
      (simp add: spec_quiet_def spec_cooldown_def passes_low quiet_start_of_def
        quiet_end_of_def min_interval_of_def local_hour_def recipient_def offline_sel
        base_env_def Number_env_def last_of_def chat_of_def at_time_def getHours_def
        getConfig_2_def str_or_def goal_of_2_def computeGoalMl_2_def Math_round_def
        addPer_def js_clamp_def)
  have fail: "\<not> is_Notified (response_of (handler Variant2 ?o Map.empty ?req))"
    and sent: "sends (handler Variant2 ?o Map.empty ?req)"
    unfolding off by (simp_all add: send_and_record_def offline_sel outcome_sel sends_def)
  from state_written_after_send [of Variant2 ?w Map.empty ?req]
    state_written_after_send [of Variant2 ?o Map.empty ?req] ok fail sent
  show ?thesis
    by (simp add: recipient_at world_at_sel)
qed


section \<open>The plan the AI variants act on\<close>






section \<open>Concrete evaluations\<close>

text \<open>Variant 1 at 15:00 with a Heavy profile: the goal is 3050 and the target 1369.\<close>

lemma heavy_ctx:
  "ctx_of_1 (world_at (at_time 15 0)) (heavy_reading ml pct)
     = \<lparr>weight_kg = 70, activity_level = ''Heavy'', daily_activity_minutes = 30,
        medical_conditions = [], clinician_limit_ml = None, temp_c = None, humidity_pct = None,
        wake = at_time 7 0, sleep = at_time 23 0\<rparr>"
  "now_of_1 (world_at (at_time 15 0)) (heavy_reading ml pct) = at_time 15 0"
  by (simp_all add: ctx_of_1_def now_of_1_def contextOf_def heavy_reading_def
      heavy_profile_def no_profile_def parseHM_1_def isDigit_def digitVal_def setHours_def
      world_at_sel at_time_def Number_or_def str_or_def)

lemma heavy_goal: "goal_of_1 (world_at (at_time 15 0)) (heavy_reading ml pct) = Num 3050"
  by (simp add: goal_of_1_def heavy_ctx computeGoalMl_def Math_round_def addPer_def
      hot_or_humid_def js_clamp_def)

lemma heavy_target: "target_of_1 (world_at (at_time 15 0)) (heavy_reading ml pct) = Num 1369"
  unfolding target_of_1_def heavy_goal heavy_ctx
  by (simp add: computeSchedule_def fractionAt_def tMorningEnd_def tAfternoonEnd_def
      timeClip_def morningOf_def afternoonOf_def eveningOf_def at_time_def Math_round_def)

lemma heavy_body:
  "b_ml (heavy_reading ml pct) = Some ml" "b_pct (heavy_reading ml pct) = Some pct"
  "b_profile (heavy_reading ml pct) \<noteq> NullProfile"
  "well_formed (world_at t) (post (heavy_reading ml pct))"
  by (simp_all add: heavy_reading_def well_formed_def world_at_sel base_env_def post_def
      truthy_str_def)

text \<open>Variant 3 on a Heavy Monday at 15:00, without an AI key, with 972 ml drunk.\<close>

lemma heavy_sel:
  "w_vars (heavy_world_at t) = base_env\<lparr>env_ACTIVITY_MON := Some ''Heavy''\<rparr>"
  "w_tz (heavy_world_at t) = 0" "w_now (heavy_world_at t) = t"
  "clock_wake (heavy_world_at t) = t" "clock_sleep (heavy_world_at t) = t"
  "clock_dow (heavy_world_at t) = t" "clock_rate (heavy_world_at t) = t"
  "clock_set (heavy_world_at t) = t" "send_ok (heavy_world_at t)"
  by (simp_all add: heavy_world_at_def world_at_sel)

lemma normalize_Heavy: "normalizeActivity ''Heavy'' = ''Heavy''"
  by (simp add: normalizeActivity_def toLowerCase_def toLowerChar_def)

lemma parse_day:
  "parseHM 0 (at_time 15 0) ''07:00'' 7 0 = at_time 7 0"
  "parseHM 0 (at_time 15 0) ''23:00'' 7 0 = at_time 23 0"
  by (simp_all add: parseHM_def isDigit_def digitVal_def setHours_def clamp_def at_time_def)

lemma frac_day: "fallbackFrac (at_time 7 0) (at_time 23 0) (at_time 15 0) = 241 / 470"
  by (simp add: fallbackFrac_def fractionAt_def tMorningEnd_def tAfternoonEnd_def timeClip_def
      at_time_def)

lemma heavy_fallback:
  "fallbackPlan 0 (at_time 15 0) (at_time 15 0) why 70 ''Heavy'' ''07:00'' ''23:00'' 972 50
     (at_time 15 0)
   = \<lparr>goal_ml = Num 3650, target_ml_now = Num 1872, next_sip_ml = Num 250,
      should_notify = True, reason = why\<rparr>"
  unfolding fallbackPlan_def parse_day frac_day Let_def
  by (simp add: js_clamp_def Math_round_def addFlat_def)

lemma heavy_cfg:
  "dayActivity (getConfig_3 (base_env\<lparr>env_ACTIVITY_MON := Some ''Heavy''\<rparr>)) 1 = ''Heavy''"
  "WEIGHT_KG (getConfig_3 (base_env\<lparr>env_ACTIVITY_MON := Some ''Heavy''\<rparr>)) = 70"
  by (simp_all add: dayActivity_def getConfig_3_def base_env_def str_or_def Number_env_def)

lemma monday: "getDay 0 (at_time 15 0) = 1"
  by (simp add: getDay_def at_time_def)

lemma heavy_plan:
  "choosePlan (heavy_world_at (at_time 15 0)) (getConfig_3 (w_vars (heavy_world_at (at_time 15 0))))
      ''fallback'' ''07:00'' ''23:00'' 972 50
      = \<lparr>goal_ml = Num 3650, target_ml_now = Num 1872, next_sip_ml = Num 250,
         should_notify = True, reason = ''fallback''\<rparr>"
  unfolding choosePlan_def heavy_sel Let_def monday heavy_cfg normalize_Heavy heavy_fallback
  by (simp add: base_env_def truthy_str_def)





section \<open>Notification decision\<close>




text \<open>
  Outside the amended claim, the model follows the source where the goal is not a
  number: with the activity level \<^verbatim>\<open>constructor\<close> the table lookup finds an inherited
  member, goal, target and sip are \<open>NaN\<close>, the test \<^verbatim>\<open>remaining_ml <= 0\<close> is false, and a
  reading with \<open>ml = 5000\<close> and \<open>pct = 30\<close> is notified.
\<close>

lemma inherited_member_goal:
  "handler_1 (world_at (at_time 12 0)) Map.empty (post (constructor_reading 5000 30))
    = (Notified NaN NaN NaN, [Send ''chat'', SetLastNotified ''chat'' (at_time 12 0)],
       [''chat'' \<mapsto> at_time 12 0])"
proof -
  let ?w = "world_at (at_time 12 0)" and ?b = "constructor_reading 5000 30"
  have wf: "well_formed ?w (post ?b)"
    by (simp add: well_formed_def world_at_sel base_env_def post_def constructor_reading_def
        truthy_str_def)
  have b: "body (post ?b) = Some ?b" "b_ml ?b = Some 5000" "b_pct ?b = Some 30"
    "b_profile ?b \<noteq> NullProfile"
    by (simp_all add: post_def constructor_reading_def)
  have a: "activity_level (ctx_of_1 ?w ?b) = ''constructor''"
    by (simp add: ctx_of_1_def contextOf_def constructor_reading_def no_profile_def
        str_or_def Let_def split_def)
  have g: "goal_of_1 ?w ?b = NaN"
    by (simp add: goal_of_1_def computeGoalMl_def a addPer_def inherited_members_def Let_def
        js_clamp_def split: option.splits)
  have t: "target_of_1 ?w ?b = NaN"
    by (simp add: target_of_1_def g)
  have q: "\<not> spec_quiet 23 7 (local_hour ?w)"
    by (simp add: local_hour_at spec_quiet_def)
  have c: "\<not> spec_cooldown 30 (clock_rate ?w) (last_of Map.empty (recipient ?w))"
    by (simp add: spec_cooldown_def last_of_def world_at_sel at_time_def)
  show ?thesis
    unfolding handler_1_valid [OF wf b] g t using q c
    by (simp add: passes_decision_def sip_of_def js_clamp_def send_and_record_def
        world_at_sel recipient_at)
qed

section \<open>Sip sizing\<close>

text \<open>
  Claim C6, amended: whenever the rule-based handlers (variants 1 and 2) notify with a
  numeric target, the recommended sip is
  \<open>clamp(round(max(0, target_ml_now - ml) / 3), baseMin, baseMax)\<close> with bounds (200, 300)
  for Heavy, (180, 250) for Moderate and (150, 220) otherwise; for Heavy a gap of 900
  gives 300. The fallback plan of the AI variants, when its target is numeric, clamps the
  same third of the gap to (150, 250) for every activity level.
\<close>

theorem sip_size:
  assumes "well_formed w req" and "body req = Some b" and "b_ml b = Some ml"
    and "b_pct b = Some pct"
  shows "(response_of (handler_1 w st req) = Notified g (Num t) s \<longrightarrow>
          Num t = target_of_1 w b \<and> s = Num (spec_sip (activity_level (ctx_of_1 w b)) t ml))
    \<and> (response_of (handler_2 w st req) = Notified g (Num t) s \<longrightarrow>
          Num t = target_of_2 w
          \<and> s = Num (spec_sip (ACTIVITY_LEVEL (getConfig_2 (w_vars w))) t ml))
    \<and> spec_sip a t ml
        = clamp (Math_round (max 0 (t - ml) / 3))
            (if a = ''Heavy'' then 200 else if a = ''Moderate'' then 180 else 150)
            (if a = ''Heavy'' then 300 else if a = ''Moderate'' then 250 else 220)
    \<and> (t = ml + 900 \<longrightarrow> spec_sip ''Heavy'' t ml = 300)
    \<and> (target_ml_now (fallbackPlan z cw cs why wt a ws ss ml pct n) = Num t \<longrightarrow>
        next_sip_ml (fallbackPlan z cw cs why wt a ws ss ml pct n)
          = Num (clamp (Math_round (max 0 (t - ml) / 3)) 150 250))"
proof -
  have one: "response_of (handler_1 w st req) = Notified g (Num t) s \<longrightarrow>
      Num t = target_of_1 w b \<and> s = Num (spec_sip (activity_level (ctx_of_1 w b)) t ml)"
  proof (cases "b_profile b = NullProfile")
    case True
    show ?thesis
      unfolding handler_1_null [OF assms(1,2) True] by (simp add: outcome_sel)
  next
    case False
    show ?thesis
      unfolding handler_1_valid [OF assms False]
      by (auto simp: outcome_sel response_send_and_record sip_of_Num [symmetric]
          split: if_splits)
  qed
  have two: "response_of (handler_2 w st req) = Notified g (Num t) s \<longrightarrow>
      Num t = target_of_2 w
      \<and> s = Num (spec_sip (ACTIVITY_LEVEL (getConfig_2 (w_vars w))) t ml)"
    unfolding handler_2_valid [OF assms]
    by (auto simp: outcome_sel response_send_and_record sip_of_Num [symmetric]
        split: if_splits)
  have formula: "spec_sip a t ml
      = clamp (Math_round (max 0 (t - ml) / 3))
          (if a = ''Heavy'' then 200 else if a = ''Moderate'' then 180 else 150)
          (if a = ''Heavy'' then 300 else if a = ''Moderate'' then 250 else 220)"
    by (simp add: spec_sip_def spec_sip_bounds_def)
  have heavy: "t = ml + 900 \<longrightarrow> spec_sip ''Heavy'' t ml = 300"
    by (simp add: spec_sip_def spec_sip_bounds_def Math_round_def clamp_def)
  have fb: "target_ml_now (fallbackPlan z cw cs why wt a ws ss ml pct n) = Num t \<longrightarrow>
      next_sip_ml (fallbackPlan z cw cs why wt a ws ss ml pct n)
        = Num (clamp (Math_round (max 0 (t - ml) / 3)) 150 250)"
    by (simp add: fallbackPlan_def Let_def js_clamp_def clamp_def)
  show ?thesis
    by (intro conjI) (fact one two formula heavy fb)+
qed

text \<open>Variant 1 at 15:00 with a Heavy profile, 469 ml drunk: the gap is 900, the sip 300.\<close>

theorem sip_size_witness:
  "well_formed (world_at (at_time 15 0)) (post (heavy_reading 469 50))
   \<and> response_of (handler_1 (world_at (at_time 15 0)) Map.empty (post (heavy_reading 469 50)))
       = Notified (Num 3050) (Num 1369) (Num 300)
   \<and> activity_level (ctx_of_1 (world_at (at_time 15 0)) (heavy_reading 469 50)) = ''Heavy''
   \<and> 300 = spec_sip ''Heavy'' 1369 469
   \<and> spec_sip ''Heavy'' (469 + 900) 469 = 300"
proof -
  let ?w = "world_at (at_time 15 0)" and ?b = "heavy_reading 469 50"
  note b = body_post(1) heavy_body(1,2) [of 469 50]
  have q: "\<not> spec_quiet 23 7 (local_hour ?w)"
    by (simp add: local_hour_at spec_quiet_def)
  have c: "\<not> spec_cooldown 30 (clock_rate ?w) (last_of Map.empty (recipient ?w))"
    by (simp add: spec_cooldown_def last_of_def world_at_sel at_time_def)
  have r: "response_of (handler_1 ?w Map.empty (post ?b))
      = Notified (Num 3050) (Num 1369) (Num 300)"
    unfolding handler_1_valid [OF heavy_body(4) b heavy_body(3)] heavy_goal heavy_target
      heavy_ctx
    using q c
    by (simp add: passes_decision_Num spec_notify_def sip_of_Num spec_sip_def
        spec_sip_bounds_def Math_round_def clamp_def response_send_and_record world_at_sel)
  from sip_size [OF heavy_body(4) b, where st = Map.empty and g = "Num 3050" and t = 1369
      and s = "Num 300"] r
    sip_size [OF heavy_body(4) b, where st = Map.empty and t = "469 + 900"]
  show ?thesis
    by (simp add: heavy_ctx heavy_body)
qed

text \<open>
  Claim C6, as stated for every notifying handler: variant 3 on a Heavy Monday at 15:00,
  without an AI key, with 972 ml drunk. The gap is 900 and the fallback plan recommends
  250, where the stated bounds for Heavy give 300.
\<close>

theorem sip_size_counterexample:
  "response_of (handler_3 (heavy_world_at (at_time 15 0)) Map.empty (post (reading_of 972 50)))
     = Notified (Num 3650) (Num 1872) (Num 250)
   \<and> normalizeActivity (dayActivity (getConfig_3 (w_vars (heavy_world_at (at_time 15 0))))
        (getDay 0 (at_time 15 0))) = ''Heavy''
   \<and> spec_sip ''Heavy'' 1872 972 = 300"
proof -
  let ?w = "heavy_world_at (at_time 15 0)" and ?b = "reading_of 972 50"
  have wf: "well_formed ?w (post ?b)"
    by (simp add: well_formed_def heavy_sel base_env_def post_def reading_of_def truthy_str_def)
  have gates: "\<not> spec_quiet (quiet_start_of ?w) (quiet_end_of ?w) (local_hour ?w)"
    "\<not> spec_cooldown (min_interval_of ?w) (clock_rate ?w) (last_of Map.empty (recipient ?w))"
    "send_ok ?w"
    by (simp_all add: spec_quiet_def spec_cooldown_def quiet_start_of_def quiet_end_of_def
        min_interval_of_def local_hour_def heavy_sel base_env_def Number_env_def
        last_of_def at_time_def getHours_def)
  have r: "response_of (handler_3 ?w Map.empty (post ?b))
      = Notified (Num 3650) (Num 1872) (Num 250)"
    unfolding handler_3_def handler_ai_valid [OF wf body_post(1-3)] heavy_plan Let_def
    using gates by (simp add: response_send_and_record passes_plan_def)
  have day: "normalizeActivity (dayActivity (getConfig_3 (w_vars ?w)) (getDay 0 (at_time 15 0)))
      = ''Heavy''"
    unfolding heavy_sel monday heavy_cfg by (rule normalize_Heavy)
  have s: "spec_sip ''Heavy'' 1872 972 = 300"
    by (simp add: spec_sip_def spec_sip_bounds_def Math_round_def clamp_def)
  from r day s show ?thesis
    by simp
qed

section \<open>The default wake time resets the handler's clock (variant 1)\<close>










section \<open>Activity normalisation\<close>

lemma startsWith_iff: "startsWith t sub \<longleftrightarrow> (\<exists>post. t = sub @ post)"
  by (induction t sub rule: startsWith.induct) auto

lemma includes_str_iff: "includes_str t sub \<longleftrightarrow> (\<exists>pre post. t = pre @ sub @ post)"
proof (induction t)
  case Nil
  then show ?case by auto
next
  case (Cons x xs)
  show ?case
  proof
    assume "includes_str (x # xs) sub"
    then consider "startsWith (x # xs) sub" | "includes_str xs sub"
      by auto
    then show "\<exists>pre post. x # xs = pre @ sub @ post"
    proof cases
      case 1
      then obtain post where "x # xs = sub @ post"
        by (auto simp: startsWith_iff)
      then have "x # xs = [] @ sub @ post" by simp
      then show ?thesis by blast
    next
      case 2
      with Cons.IH obtain pre post where "xs = pre @ sub @ post" by blast
      then have "x # xs = (x # pre) @ sub @ post" by simp
      then show ?thesis by blast
    qed
  next
    assume "\<exists>pre post. x # xs = pre @ sub @ post"
    then obtain pre post where eq: "x # xs = pre @ sub @ post" by blast
    show "includes_str (x # xs) sub"
    proof (cases pre)
      case Nil
      with eq have "startsWith (x # xs) sub"
        by (auto simp: startsWith_iff)
      then show ?thesis by simp
    next
      case (Cons y ys)
      with eq have "xs = ys @ sub @ post" by simp
      with Cons.IH have "includes_str xs sub" by blast
      then show ?thesis by simp
    qed
  qed
qed

lemma normalizeActivity_level: "normalizeActivity s \<in> activity_levels"
  by (simp add: normalizeActivity_def activity_levels_def Let_def)

lemma normalizeActivity_cases:
  "normalizeActivity s =
     (if includes_str (toLowerCase s) ''heavy'' then ''Heavy''
      else if includes_str (toLowerCase s) ''moderate'' then ''Moderate''
      else if includes_str (toLowerCase s) ''sedentary'' then ''Sedentary''
      else if includes_str (toLowerCase s) ''light'' then ''Light''
      else if (\<exists>k \<in> {''run'', ''gym'', ''match'', ''intense'', ''cycle''}.
                 includes_str (toLowerCase s) k) then ''Heavy''
      else if (\<exists>k \<in> {''walk'', ''jog'', ''yoga'', ''swim''}. includes_str (toLowerCase s) k)
         then ''Moderate''
      else ''Light'')"
  unfolding normalizeActivity_def Let_def by simp

lemma spec_addFlat_level:
  "a \<in> activity_levels \<Longrightarrow> \<exists>x. spec_addFlat a = Some x \<and> addFlat a = Num x \<and> x \<in> \<int>"
  by (auto simp: activity_levels_def spec_addFlat_def addFlat_def)

lemma unknown_level_defaults:
  "a \<notin> activity_levels \<Longrightarrow>
   (a \<notin> set inherited_members \<longrightarrow> addPer a = Num 200)
   \<and> morningOf a = 35 / 100 \<and> afternoonOf a = 45 / 100
   \<and> sipMin a = 150 \<and> sipMax a = 220"
  by (simp add: activity_levels_def addPer_def morningOf_def afternoonOf_def sipMin_def
      sipMax_def)

text \<open>
  Claim C7, amended: \<^verbatim>\<open>normalizeActivity\<close> resolves every string to one of the four enum
  values, by substring match on the lower-cased text with the priority heavy, moderate,
  sedentary, light, then the keywords run/gym/match/intense/cycle (Heavy), then
  walk/jog/yoga/swim (Moderate), else Light; the fallback plan of the AI variants gets
  the day's activity through it, so its table lookup always finds an enum key. The
  rule-based variants 1 and 2 do not normalise: a level that is not an enum value takes
  the default row of the schedule and of the sip bounds (the 35/45/20 day, sips of 150
  to 220) and, unless it is the name of a member that every object inherits, the
  default row of the goal table (200 ml per block).
\<close>

theorem activity_normalised:
  "normalizeActivity s \<in> activity_levels
   \<and> (\<exists>x. spec_addFlat (normalizeActivity s) = Some x
          \<and> addFlat (normalizeActivity s) = Num x \<and> x \<in> \<int>)
   \<and> (includes_str t sub \<longleftrightarrow> (\<exists>pre post. t = pre @ sub @ post))
   \<and> (includes_str (toLowerCase s) ''heavy'' \<longrightarrow> normalizeActivity s = ''Heavy'')
   \<and> (\<not> includes_str (toLowerCase s) ''heavy'' \<and> includes_str (toLowerCase s) ''moderate''
        \<longrightarrow> normalizeActivity s = ''Moderate'')
   \<and> (\<not> includes_str (toLowerCase s) ''heavy'' \<and> \<not> includes_str (toLowerCase s) ''moderate''
        \<and> includes_str (toLowerCase s) ''sedentary'' \<longrightarrow> normalizeActivity s = ''Sedentary'')
   \<and> (\<not> includes_str (toLowerCase s) ''heavy'' \<and> \<not> includes_str (toLowerCase s) ''moderate''
        \<and> \<not> includes_str (toLowerCase s) ''sedentary'' \<and> includes_str (toLowerCase s) ''light''
        \<longrightarrow> normalizeActivity s = ''Light'')
   \<and> ((\<forall>e \<in> {''heavy'', ''moderate'', ''sedentary'', ''light''}.
          \<not> includes_str (toLowerCase s) e)
        \<and> (\<exists>k \<in> {''run'', ''gym'', ''match'', ''intense'', ''cycle''}.
              includes_str (toLowerCase s) k)
        \<longrightarrow> normalizeActivity s = ''Heavy'')
   \<and> ((\<forall>e \<in> {''heavy'', ''moderate'', ''sedentary'', ''light'', ''run'', ''gym'', ''match'',
              ''intense'', ''cycle''}. \<not> includes_str (toLowerCase s) e)
        \<and> (\<exists>k \<in> {''walk'', ''jog'', ''yoga'', ''swim''}. includes_str (toLowerCase s) k)
        \<longrightarrow> normalizeActivity s = ''Moderate'')
   \<and> ((\<forall>e \<in> {''heavy'', ''moderate'', ''sedentary'', ''light'', ''run'', ''gym'', ''match'',
              ''intense'', ''cycle'', ''walk'', ''jog'', ''yoga'', ''swim''}.
            \<not> includes_str (toLowerCase s) e)
        \<longrightarrow> normalizeActivity s = ''Light'')
   \<and> (\<not> truthy_str (env_OPENAI_API_KEY (w_vars w)) \<longrightarrow>
        choosePlan w cfg why ws ss ml pct
          = fallbackPlan (w_tz w) (clock_wake w) (clock_sleep w) why (WEIGHT_KG cfg)
              (normalizeActivity (dayActivity cfg (getDay (w_tz w) (clock_dow w))))
              ws ss ml pct (w_now w))
   \<and> (a \<notin> activity_levels \<longrightarrow>
        (a \<notin> set inherited_members \<longrightarrow> addPer a = Num 200)
        \<and> morningOf a = 35 / 100 \<and> afternoonOf a = 45 / 100
        \<and> sipMin a = 150 \<and> sipMax a = 220)"
proof -
  have fb: "\<not> truthy_str (env_OPENAI_API_KEY (w_vars w)) \<longrightarrow>
      choosePlan w cfg why ws ss ml pct
      = fallbackPlan (w_tz w) (clock_wake w) (clock_sleep w) why (WEIGHT_KG cfg)
          (normalizeActivity (dayActivity cfg (getDay (w_tz w) (clock_dow w))))
          ws ss ml pct (w_now w)"
    by (simp add: choosePlan_def Let_def)
  have p1: "includes_str (toLowerCase s) ''heavy'' \<longrightarrow> normalizeActivity s = ''Heavy''"
    unfolding normalizeActivity_cases by simp
  have p2: "\<not> includes_str (toLowerCase s) ''heavy'' \<and> includes_str (toLowerCase s) ''moderate''
        \<longrightarrow> normalizeActivity s = ''Moderate''"
    unfolding normalizeActivity_cases by simp
  have p3: "\<not> includes_str (toLowerCase s) ''heavy'' \<and> \<not> includes_str (toLowerCase s) ''moderate''
        \<and> includes_str (toLowerCase s) ''sedentary'' \<longrightarrow> normalizeActivity s = ''Sedentary''"
    unfolding normalizeActivity_cases by simp
  have p4: "\<not> includes_str (toLowerCase s) ''heavy'' \<and> \<not> includes_str (toLowerCase s) ''moderate''
        \<and> \<not> includes_str (toLowerCase s) ''sedentary'' \<and> includes_str (toLowerCase s) ''light''
        \<longrightarrow> normalizeActivity s = ''Light''"
    unfolding normalizeActivity_cases by simp
  have p5: "(\<forall>e \<in> {''heavy'', ''moderate'', ''sedentary'', ''light''}.
          \<not> includes_str (toLowerCase s) e)
        \<and> (\<exists>k \<in> {''run'', ''gym'', ''match'', ''intense'', ''cycle''}.
              includes_str (toLowerCase s) k)
        \<longrightarrow> normalizeActivity s = ''Heavy''"
    unfolding normalizeActivity_cases by simp
  have p6: "(\<forall>e \<in> {''heavy'', ''moderate'', ''sedentary'', ''light'', ''run'', ''gym'', ''match'',
              ''intense'', ''cycle''}. \<not> includes_str (toLowerCase s) e)
        \<and> (\<exists>k \<in> {''walk'', ''jog'', ''yoga'', ''swim''}. includes_str (toLowerCase s) k)
        \<longrightarrow> normalizeActivity s = ''Moderate''"
    unfolding normalizeActivity_cases by simp
  have p7: "(\<forall>e \<in> {''heavy'', ''moderate'', ''sedentary'', ''light'', ''run'', ''gym'', ''match'',
              ''intense'', ''cycle'', ''walk'', ''jog'', ''yoga'', ''swim''}.
            \<not> includes_str (toLowerCase s) e)
        \<longrightarrow> normalizeActivity s = ''Light''"
    unfolding normalizeActivity_cases by simp
  have un: "a \<notin> activity_levels \<longrightarrow>
        (a \<notin> set inherited_members \<longrightarrow> addPer a = Num 200)
        \<and> morningOf a = 35 / 100 \<and> afternoonOf a = 45 / 100
        \<and> sipMin a = 150 \<and> sipMax a = 220"
    using unknown_level_defaults [of a] by (rule impI)
  note lv = normalizeActivity_level [of s]
  note fl = spec_addFlat_level [OF lv]
  note inc = includes_str_iff [of t sub]
  show ?thesis
    by (intro conjI) (fact lv fl inc p1 p2 p3 p4 p5 p6 p7 fb un)+
qed

text \<open>
  "Gym session" is Heavy, "Evening YOGA" is Moderate, "light run" is Light (the enum word
  wins over the keyword), "chess" is Light. Left as it is, "gym" counts 200 ml per block.
\<close>

lemma lower_examples:
  "toLowerCase ''Gym session'' = ''gym session''" "toLowerCase ''Evening YOGA'' = ''evening yoga''"
  "toLowerCase ''light run'' = ''light run''" "toLowerCase ''chess'' = ''chess''"
  by (simp_all add: toLowerCase_def toLowerChar_def)

theorem activity_normalised_witness:
  "normalizeActivity ''Gym session'' = ''Heavy''
   \<and> normalizeActivity ''Evening YOGA'' = ''Moderate''
   \<and> normalizeActivity ''light run'' = ''Light''
   \<and> normalizeActivity ''chess'' = ''Light''
   \<and> includes_str ''gym session'' ''gym''
   \<and> ''gym'' \<notin> activity_levels \<and> ''gym'' \<notin> set inherited_members
   \<and> addPer ''gym'' = Num 200 \<and> sipMax ''gym'' = 220"
proof -
  have g: "''gym'' \<notin> activity_levels" "''gym'' \<notin> set inherited_members"
    by (simp_all add: activity_levels_def inherited_members_def)
  from activity_normalised [of "''Gym session''" "''gym session''" "''gym''" "world_at 0"]
    activity_normalised [of "''Evening YOGA''" "''gym session''" "''gym''" "world_at 0"]
    activity_normalised [of "''light run''" "''gym session''" "''gym''" "world_at 0"]
    activity_normalised [where s = "''chess''" and t = "''gym session''" and sub = "''gym''"
      and w = "world_at 0" and a = "''gym''"] g
  show ?thesis
    unfolding lower_examples
    by simp
qed

text \<open>
  Claim C7, as stated for every decision cycle: variant 1 with the profile activity
  "gym". The context keeps the string "gym", which is no enum value, and the goal is
  computed with the default 200 ml per block (2300), where Heavy would give 2700.
\<close>

theorem activity_normalised_counterexample:
  "activity_level (ctx_of_1 (world_at (at_time 12 0)) (gym_reading 0 30)) = ''gym''
   \<and> ''gym'' \<notin> activity_levels
   \<and> normalizeActivity ''gym'' = ''Heavy''
   \<and> goal_of_1 (world_at (at_time 12 0)) (gym_reading 0 30) = Num 2300
   \<and> computeGoalMl ((ctx_of_1 (world_at (at_time 12 0)) (gym_reading 0 30))
        \<lparr>activity_level := ''Heavy''\<rparr>) = Num 2700"
  by (simp add: goal_of_1_def ctx_of_1_def contextOf_def gym_reading_def no_profile_def
      parseHM_1_def Number_or_def str_or_def computeGoalMl_def Math_round_def addPer_def
      hot_or_humid_def js_clamp_def activity_levels_def normalizeActivity_def toLowerCase_def
      toLowerChar_def inherited_members_def)



section \<open>AI plan: sanitisation and fallback\<close>










lemma sanitize_NonNumeric: "sanitize NonNumeric lo hi = Some NaN"
  by (cases lo; cases hi) (simp_all add: js_clamp_def)





text \<open>
  Outside the amended claim, the model follows the source where a field does not convert
  to a number: the goal of the plan is \<open>NaN\<close>, the test \<^verbatim>\<open>remaining_ml <= 0\<close> is false, and
  the flag alone decides.
\<close>

lemma non_numeric_goal:
  "aiPlan (Reply (eager_data\<lparr>daily_goal_ml := NonNumeric\<rparr>))
     = Some \<lparr>goal_ml = NaN, target_ml_now = NaN, next_sip_ml = Num 200,
         should_notify = True, reason = ''Time to drink.''\<rparr>
   \<and> passes_plan \<lparr>goal_ml = NaN, target_ml_now = NaN, next_sip_ml = Num 200,
         should_notify = True, reason = ''Time to drink.''\<rparr> ml"
  by (simp add: aiPlan_def eager_data_def Math_round_def js_clamp_def passes_plan_def)

end
